theory Spec2Isabelle
  imports Complex_Main "HOL-Library.AList" "HOL-Library.Sublist"
begin

section \<open>Python values, exceptions and the operations the adapters use\<close>

text \<open>
  The two adapters (\<^verbatim>\<open>HyperliquidPerpetualCandles\<close>, \<^verbatim>\<open>OKXSpotCandles\<close>) work on decoded
  JSON: REST response bodies and websocket frames. A decoded JSON value is \<open>json\<close>; Python's
  \<^verbatim>\<open>None\<close> is \<open>JNull\<close>, a dict is \<open>JObj\<close> with the list of its items (keys distinct, in
  insertion order), an int or float is \<open>JNum\<close>.
\<close>

datatype json =
    JNull
  | JBool bool
  | JNum rat
  | JStr string
  | JArr "json list"
  | JObj "(string \<times> json) list"

text \<open>
  An exception raised by the Python code is a value \<open>Inl e\<close> of \<open>error + 'a\<close>. The
  first six are exceptions of Python; \<open>UnsupportedInterval\<close> is the failure that the
  specification of the interval registry names (4.1, 7). No statement of the two adapters
  raises it.
\<close>

datatype error =
    KeyError json
  | IndexError
  | TypeError
  | ValueError
  | AttributeError
  | IOError string
  | UnsupportedInterval

fun ebind :: "error + 'a \<Rightarrow> ('a \<Rightarrow> error + 'b) \<Rightarrow> error + 'b" where
  "ebind (Inl e) f = Inl e"
| "ebind (Inr x) f = f x"

text \<open>\<^verbatim>\<open>len(x)\<close>\<close>

fun py_len :: "json \<Rightarrow> error + nat" where
  "py_len (JArr xs) = Inr (length xs)"
| "py_len (JObj kvs) = Inr (length kvs)"
| "py_len (JStr s) = Inr (length s)"
| "py_len _ = Inl TypeError"

text \<open>\<^verbatim>\<open>for row in x\<close>: a list gives its elements, a dict its keys, a string its characters.\<close>

fun py_iter :: "json \<Rightarrow> error + json list" where
  "py_iter (JArr xs) = Inr xs"
| "py_iter (JObj kvs) = Inr (map (\<lambda>kv. JStr (fst kv)) kvs)"
| "py_iter (JStr s) = Inr (map (\<lambda>c. JStr [c]) s)"
| "py_iter _ = Inl TypeError"

text \<open>\<^verbatim>\<open>x["k"]\<close> with a string key: only a dict accepts it.\<close>

fun getitem :: "json \<Rightarrow> string \<Rightarrow> error + json" where
  "getitem (JObj kvs) k = (case map_of kvs k of None \<Rightarrow> Inl (KeyError (JStr k)) | Some v \<Rightarrow> Inr v)"
| "getitem _ k = Inl TypeError"

text \<open>
  \<^verbatim>\<open>x[i]\<close> with a literal index \<open>i \<ge> 0\<close>. A decoded JSON object has string keys only, so
  an integer key is never present.
\<close>

fun getindex :: "json \<Rightarrow> nat \<Rightarrow> error + json" where
  "getindex (JArr xs) i = (if i < length xs then Inr (xs ! i) else Inl IndexError)"
| "getindex (JStr s) i = (if i < length s then Inr (JStr [s ! i]) else Inl IndexError)"
| "getindex (JObj kvs) i = Inl (KeyError (JNum (of_nat i)))"
| "getindex _ i = Inl TypeError"

text \<open>\<^verbatim>\<open>x.get("k")\<close>: a dict method, \<^verbatim>\<open>None\<close> for a missing key.\<close>

fun py_get :: "json \<Rightarrow> string \<Rightarrow> error + json" where
  "py_get (JObj kvs) k = Inr (case map_of kvs k of None \<Rightarrow> JNull | Some v \<Rightarrow> v)"
| "py_get _ k = Inl AttributeError"

text \<open>
  \<^verbatim>\<open>"k" in x\<close>: key membership for a dict, element membership for a list, substring test
  for a string.
\<close>

fun py_in :: "string \<Rightarrow> json \<Rightarrow> error + bool" where
  "py_in k (JObj kvs) = Inr (k \<in> set (map fst kvs))"
| "py_in k (JArr xs) = Inr (JStr k \<in> set xs)"
| "py_in k (JStr s) = Inr (sublist k s)"
| "py_in k _ = Inl TypeError"

text \<open>\<^verbatim>\<open>a < b\<close>, \<^verbatim>\<open>a - b\<close>, \<^verbatim>\<open>a + b\<close>, \<^verbatim>\<open>a * b\<close> where one operand is an \<^verbatim>\<open>Optional[int]\<close>.\<close>

fun py_lt :: "int \<Rightarrow> int option \<Rightarrow> error + bool" where
  "py_lt a None = Inl TypeError"
| "py_lt a (Some b) = Inr (a < b)"

fun py_sub :: "int option \<Rightarrow> int \<Rightarrow> error + int" where
  "py_sub None b = Inl TypeError"
| "py_sub (Some a) b = Inr (a - b)"

fun py_add :: "int option \<Rightarrow> int \<Rightarrow> error + int" where
  "py_add None b = Inl TypeError"
| "py_add (Some a) b = Inr (a + b)"

fun py_mul :: "int option \<Rightarrow> int \<Rightarrow> error + int" where
  "py_mul None b = Inl TypeError"
| "py_mul (Some a) b = Inr (a * b)"

text \<open>Truth value of an \<^verbatim>\<open>Optional[int]\<close>: \<^verbatim>\<open>None\<close> and \<^verbatim>\<open>0\<close> are falsy.\<close>

fun truthy :: "int option \<Rightarrow> bool" where
  "truthy None = False"
| "truthy (Some a) = (a \<noteq> 0)"

text \<open>
  \<^verbatim>\<open>np.array(arr).astype(float)\<close>. \<^verbatim>\<open>np.array(None)\<close> is a 0-dimensional array, which
  \<^verbatim>\<open>astype(float)\<close> turns into the 0-dimensional array holding nan. A list of rows becomes
  the array of these rows when every cell converts to a float, and the conversion raises
  otherwise. A number converts, \<^verbatim>\<open>None\<close> converts (to nan), and a string converts when
  Python's \<^verbatim>\<open>float\<close> accepts it, which is the grammar below (from the language
  reference: optional blanks around, an optional sign, then \<^verbatim>\<open>inf\<close>, \<^verbatim>\<open>infinity\<close> or
  \<^verbatim>\<open>nan\<close> in any case, or digits with an optional point and exponent, single underscores
  allowed between digits). A string that is no such literal raises \<open>ValueError\<close>; the
  model gives the same error for a cell that is a boolean, a list or a dict, which the
  exchanges do not send in a candle. The value of the float is outside the model: a cell
  that converts is kept as the value it has before the conversion.
\<close>

definition is_digit :: "char \<Rightarrow> bool" where
  "is_digit c = (let k = (of_char c :: nat) in 48 \<le> k \<and> k \<le> 57)"

definition is_space :: "char \<Rightarrow> bool" where
  "is_space c =
     (let k = (of_char c :: nat) in k = 32 \<or> (9 \<le> k \<and> k \<le> 13) \<or> (28 \<le> k \<and> k \<le> 31))"

text \<open>Equality with a word written in lower case, whatever the case of the letters.\<close>

definition caseless_eq :: "string \<Rightarrow> string \<Rightarrow> bool" where
  "caseless_eq s word =
     list_all2 (\<lambda>c w. c = w \<or> (of_char c :: nat) + 32 = of_char w) s word"

definition py_strip :: "string \<Rightarrow> string" where
  "py_strip s = rev (dropWhile is_space (rev (dropWhile is_space s)))"

definition drop_sign :: "string \<Rightarrow> string" where
  "drop_sign s =
     (case s of
        [] \<Rightarrow> s
      | c # cs \<Rightarrow> if c = CHR ''+'' \<or> c = CHR ''-'' then cs else s)"

fun digitpart :: "string \<Rightarrow> bool" where
  "digitpart [] = False"
| "digitpart [c] = is_digit c"
| "digitpart (c # d # cs) =
     (is_digit c \<and> (if d = CHR ''_'' then digitpart cs else digitpart (d # cs)))"

definition pointfloat :: "string \<Rightarrow> bool" where
  "pointfloat s =
     (let whole = takeWhile (\<lambda>c. c \<noteq> CHR ''.'') s;
          rest = dropWhile (\<lambda>c. c \<noteq> CHR ''.'') s
      in case rest of
           [] \<Rightarrow> digitpart whole
         | dot # fraction \<Rightarrow>
             (if whole = [] then digitpart fraction
              else digitpart whole \<and> (fraction = [] \<or> digitpart fraction)))"

definition floatnumber :: "string \<Rightarrow> bool" where
  "floatnumber s =
     (let mantissa = takeWhile (\<lambda>c. c \<noteq> CHR ''e'' \<and> c \<noteq> CHR ''E'') s;
          rest = dropWhile (\<lambda>c. c \<noteq> CHR ''e'' \<and> c \<noteq> CHR ''E'') s
      in case rest of
           [] \<Rightarrow> pointfloat mantissa
         | e # exponent \<Rightarrow> pointfloat mantissa \<and> digitpart (drop_sign exponent))"

definition float_literal :: "string \<Rightarrow> bool" where
  "float_literal s =
     (let body = drop_sign (py_strip s)
      in caseless_eq body ''inf'' \<or> caseless_eq body ''infinity''
         \<or> caseless_eq body ''nan'' \<or> floatnumber body)"

fun float_cell :: "json \<Rightarrow> bool" where
  "float_cell (JNum q) = True"
| "float_cell JNull = True"
| "float_cell (JStr s) = float_literal s"
| "float_cell _ = False"

datatype ndarray = Array0d_nan | Array2d "json list list"

fun np_array_astype_float :: "json list list option \<Rightarrow> error + ndarray" where
  "np_array_astype_float None = Inr Array0d_nan"
| "np_array_astype_float (Some rows) =
     (if list_all (list_all float_cell) rows then Inr (Array2d rows) else Inl ValueError)"

section \<open>What the adapters import\<close>

text \<open>
  The \<^verbatim>\<open>constants\<close> modules are not among the sources; their values are parameters of the
  model. \<open>INTERVALS\<close> is the interval mapping table, from the interval token to the
  exchange's own token.
\<close>

record constants =
  REST_URL :: string
  WSS_URL :: string
  HEALTH_CHECK_ENDPOINT :: string
  HEALTH_CHECK_PAYLOAD :: json
  CANDLES_ENDPOINT :: string
  INTERVALS :: "(string \<times> string) list"
  MAX_RESULTS_PER_CANDLESTICK_REST_REQUEST :: int

text \<open>\<^verbatim>\<open>CONSTANTS.INTERVALS[interval]\<close>\<close>

definition intervals_getitem :: "constants \<Rightarrow> string \<Rightarrow> error + string" where
  "intervals_getitem K iv =
     (case map_of (INTERVALS K) iv of None \<Rightarrow> Inl (KeyError (JStr iv)) | Some tok \<Rightarrow> Inr tok)"

text \<open>
  Modelled from the spec: \<^verbatim>\<open>NetworkStatus\<close> is declared in
  \<^verbatim>\<open>hummingbot.core.network_iterator\<close>, which is not among the sources. The spec (4.6)
  gives the health of a feed the two values \<open>CONNECTED\<close> and \<open>DISCONNECTED\<close>.
\<close>

datatype NetworkStatus = CONNECTED | DISCONNECTED

text \<open>
  Modelled from the spec: \<^verbatim>\<open>ensure_timestamp_in_seconds\<close> is a method of
  \<^verbatim>\<open>CandlesBase\<close>, which is not among the sources. The spec (3): "Timestamp is always
  normalized to whole seconds regardless of source unit (seconds, milliseconds, or ISO
  string)". The spec does not say how the unit is recognised. The model takes a number, or a
  string of decimal digits (OKX sends its timestamps so); a value of at least \<open>10^12\<close> is read
  as epoch milliseconds (epoch seconds stay below that for thirty thousand years), a smaller
  one as seconds, and the result is the whole number of seconds. ISO strings, which neither
  adapter receives, are not modelled: a string that is not a decimal number is a
  \<open>ValueError\<close>.
\<close>

definition digit_value :: "char \<Rightarrow> nat option" where
  "digit_value c =
     (let k = (of_char c :: nat) in if 48 \<le> k \<and> k \<le> 57 then Some (k - 48) else None)"

fun decimal_acc :: "nat \<Rightarrow> string \<Rightarrow> nat option" where
  "decimal_acc n [] = Some n"
| "decimal_acc n (c # cs) =
     (case digit_value c of None \<Rightarrow> None | Some d \<Rightarrow> decimal_acc (10 * n + d) cs)"

definition decimal_value :: "string \<Rightarrow> nat option" where
  "decimal_value s = (if s = [] then None else decimal_acc 0 s)"

definition whole_seconds :: "rat \<Rightarrow> int" where
  "whole_seconds q = (if 10 ^ 12 \<le> q then \<lfloor>q / 1000\<rfloor> else \<lfloor>q\<rfloor>)"

fun ensure_timestamp_in_seconds :: "json \<Rightarrow> error + int" where
  "ensure_timestamp_in_seconds (JNum q) = Inr (whole_seconds q)"
| "ensure_timestamp_in_seconds (JStr s) =
     (case decimal_value s of
        None \<Rightarrow> Inl ValueError
      | Some n \<Rightarrow> Inr (whole_seconds (of_nat n)))"
| "ensure_timestamp_in_seconds _ = Inl TypeError"

text \<open>
  The fields of \<^verbatim>\<open>CandlesBase\<close> the adapters read, and the two that
  \<^verbatim>\<open>HyperliquidPerpetualCandles\<close> adds (\<^verbatim>\<open>_base_asset\<close>, \<^verbatim>\<open>_tokens\<close>).
\<close>

record candles_base =
  trading_pair :: string
  ex_trading_pair :: string
  interval :: string
  interval_in_seconds :: int

record hyperliquid_candles = candles_base +
  base_asset :: string
  tokens :: "json option"

text \<open>
  The REST executor is a collaborator: \<^verbatim>\<open>rest_assistant.execute_request(...)\<close> is a
  function from the request to the decoded response body, or to the exception it raises.
  An argument the call does not pass is \<open>None\<close>.
\<close>

datatype RESTMethod = GET | POST

record rest_request =
  url :: string
  throttler_limit_id :: string
  params :: "(string \<times> json) list option"
  data :: "json option"
  headers :: "(string \<times> string) list option"
  http_method :: "RESTMethod option"

type_synonym rest_executor = "rest_request \<Rightarrow> error + json"

section \<open>HyperliquidPerpetualCandles\<close>

text \<open>\<^verbatim>\<open>check_network\<close>: the response is stored in \<^verbatim>\<open>self._tokens\<close>.\<close>

definition hyperliquid_check_network ::
  "constants \<Rightarrow> rest_executor \<Rightarrow> hyperliquid_candles \<Rightarrow> error + (NetworkStatus \<times> hyperliquid_candles)" where
  "hyperliquid_check_network K execute_request self =
     ebind (execute_request
              \<lparr>url = REST_URL K, throttler_limit_id = REST_URL K, params = None,
               data = Some (HEALTH_CHECK_PAYLOAD K), headers = None, http_method = Some POST\<rparr>)
       (\<lambda>response. Inr (CONNECTED, self\<lparr>tokens := Some response\<rparr>))"

text \<open>
  \<^verbatim>\<open>_parse_rest_candles\<close>. The comprehension evaluates, for each row, the condition
  \<^verbatim>\<open>ensure_timestamp_in_seconds(row["t"]) < end_time\<close> and then, when it holds, the row
  expression; the first exception ends it.
\<close>

definition hyperliquid_row_condition :: "json \<Rightarrow> int option \<Rightarrow> error + bool" where
  "hyperliquid_row_condition row end_time =
     ebind (getitem row ''t'') (\<lambda>t.
     ebind (ensure_timestamp_in_seconds t) (\<lambda>ts.
     py_lt ts end_time))"

definition hyperliquid_rest_row :: "json \<Rightarrow> error + json list" where
  "hyperliquid_rest_row row =
     ebind (getitem row ''t'') (\<lambda>t.
     ebind (ensure_timestamp_in_seconds t) (\<lambda>ts.
     ebind (getitem row ''o'') (\<lambda>vo.
     ebind (getitem row ''h'') (\<lambda>vh.
     ebind (getitem row ''l'') (\<lambda>vl.
     ebind (getitem row ''c'') (\<lambda>vc.
     ebind (getitem row ''v'') (\<lambda>vv.
     ebind (getitem row ''n'') (\<lambda>vn.
     Inr [JNum (of_int ts), vo, vh, vl, vc, vv, JNum 0, vn, JNum 0, JNum 0]))))))))"

fun hyperliquid_rest_rows :: "json list \<Rightarrow> int option \<Rightarrow> error + json list list" where
  "hyperliquid_rest_rows [] end_time = Inr []"
| "hyperliquid_rest_rows (row # rows) end_time =
     (case hyperliquid_row_condition row end_time of
        Inl e \<Rightarrow> Inl e
      | Inr keep \<Rightarrow>
          if keep then
            (case hyperliquid_rest_row row of
               Inl e \<Rightarrow> Inl e
             | Inr r \<Rightarrow>
                 (case hyperliquid_rest_rows rows end_time of
                    Inl e \<Rightarrow> Inl e
                  | Inr rs \<Rightarrow> Inr (r # rs)))
          else hyperliquid_rest_rows rows end_time)"

definition hyperliquid_parse_rest_candles ::
  "json \<Rightarrow> int option \<Rightarrow> error + json list list option" where
  "hyperliquid_parse_rest_candles candles end_time =
     ebind (py_len candles) (\<lambda>n.
       if n > 0 then
         ebind (py_iter candles) (\<lambda>rows.
         ebind (hyperliquid_rest_rows rows end_time) (\<lambda>arr. Inr (Some arr)))
       else Inr None)"

text \<open>
  \<^verbatim>\<open>fetch_candles\<close>, in its two halves: the request it builds, and the whole call.
\<close>

definition hyperliquid_fetch_request ::
  "constants \<Rightarrow> hyperliquid_candles \<Rightarrow> int option \<Rightarrow> int option \<Rightarrow> error + rest_request" where
  "hyperliquid_fetch_request K self start_time end_time =
     (let limit = MAX_RESULTS_PER_CANDLESTICK_REST_REQUEST K in
      ebind (intervals_getitem K (interval self)) (\<lambda>iv.
      ebind
        (let reqs = [(''interval'', JStr iv), (''coin'', JStr (base_asset self))] in
         if start_time \<noteq> None \<or> end_time \<noteq> None then
           ebind (case start_time of
                    Some s \<Rightarrow> Inr s
                  | None \<Rightarrow> py_sub end_time (limit * interval_in_seconds self)) (\<lambda>st.
           let reqs = AList.update ''startTime'' (JNum (of_int (st * 1000))) reqs in
           ebind (case end_time of
                    Some e \<Rightarrow> Inr e
                  | None \<Rightarrow> py_add start_time (limit * interval_in_seconds self)) (\<lambda>et.
           Inr (AList.update ''endTime'' (JNum (of_int (et * 1000))) reqs)))
         else Inr reqs) (\<lambda>reqs.
      Inr \<lparr>url = REST_URL K, throttler_limit_id = REST_URL K, params = None,
           data = Some (JObj [(''type'', JStr ''candleSnapshot''), (''req'', JObj reqs)]),
           headers = Some [(''Content-Type'', ''application/json'')],
           http_method = Some POST\<rparr>)))"

definition hyperliquid_fetch_candles ::
  "constants \<Rightarrow> rest_executor \<Rightarrow> hyperliquid_candles \<Rightarrow> int option \<Rightarrow> int option \<Rightarrow> error + ndarray" where
  "hyperliquid_fetch_candles K execute_request self start_time end_time =
     ebind (hyperliquid_fetch_request K self start_time end_time) (\<lambda>request.
     ebind (execute_request request) (\<lambda>candles.
     ebind (hyperliquid_parse_rest_candles candles end_time) (\<lambda>arr.
     np_array_astype_float arr)))"

text \<open>\<^verbatim>\<open>ws_subscription_payload\<close>\<close>

definition hyperliquid_ws_subscription_payload ::
  "constants \<Rightarrow> hyperliquid_candles \<Rightarrow> error + json" where
  "hyperliquid_ws_subscription_payload K self =
     ebind (intervals_getitem K (interval self)) (\<lambda>iv.
     Inr (JObj [(''method'', JStr ''subscribe''),
                (''subscription'',
                   JObj [(''type'', JStr ''candle''),
                         (''coin'', JStr (base_asset self)),
                         (''interval'', JStr iv)])]))"

text \<open>
  \<^verbatim>\<open>_parse_websocket_message\<close>: the dict it fills, as the list of its items in insertion
  order; \<open>None\<close> when the function falls off its end.
\<close>

definition hyperliquid_parse_websocket_message ::
  "json \<Rightarrow> error + (string \<times> json) list option" where
  "hyperliquid_parse_websocket_message msg =
     (if msg = JNull then Inr None
      else
        ebind (py_get msg ''channel'') (\<lambda>channel.
          if channel = JStr ''candle'' then
            ebind (getitem msg ''data'') (\<lambda>candle.
            ebind (getitem candle ''t'') (\<lambda>t.
            ebind (ensure_timestamp_in_seconds t) (\<lambda>ts.
            ebind (getitem candle ''o'') (\<lambda>vo.
            ebind (getitem candle ''l'') (\<lambda>vl.
            ebind (getitem candle ''h'') (\<lambda>vh.
            ebind (getitem candle ''c'') (\<lambda>vc.
            ebind (getitem candle ''v'') (\<lambda>vv.
            ebind (getitem candle ''n'') (\<lambda>vn.
            Inr (Some [(''timestamp'', JNum (of_int ts)),
                       (''open'', vo),
                       (''low'', vl),
                       (''high'', vh),
                       (''close'', vc),
                       (''volume'', vv),
                       (''quote_asset_volume'', JNum 0),
                       (''n_trades'', vn),
                       (''taker_buy_base_volume'', JNum 0),
                       (''taker_buy_quote_volume'', JNum 0)]))))))))))
          else Inr None))"

section \<open>OKXSpotCandles\<close>

definition okx_check_network ::
  "constants \<Rightarrow> rest_executor \<Rightarrow> candles_base \<Rightarrow> error + NetworkStatus" where
  "okx_check_network K execute_request self =
     ebind (execute_request
              \<lparr>url = REST_URL K @ HEALTH_CHECK_ENDPOINT K,
               throttler_limit_id = HEALTH_CHECK_ENDPOINT K, params = None,
               data = None, headers = None, http_method = None\<rparr>)
       (\<lambda>response. Inr CONNECTED)"

text \<open>
  \<^verbatim>\<open>fetch_candles\<close>: the request parameters, the rows of the response, the whole call.
  The body does not use its \<^verbatim>\<open>limit\<close> argument, and multiplies \<^verbatim>\<open>end_time\<close> by 1000
  whether or not it is \<^verbatim>\<open>None\<close>.
\<close>

definition okx_fetch_params ::
  "constants \<Rightarrow> candles_base \<Rightarrow> int option \<Rightarrow> int option \<Rightarrow> error + (string \<times> json) list" where
  "okx_fetch_params K self start_time end_time =
     ebind (intervals_getitem K (interval self)) (\<lambda>bar.
     let params = [(''instId'', JStr (ex_trading_pair self)), (''bar'', JStr bar)] in
     ebind (if truthy start_time then
              ebind (py_mul start_time 1000) (\<lambda>before.
              Inr (AList.update ''before'' (JNum (of_int before)) params))
            else Inr params) (\<lambda>params.
     ebind (py_mul end_time 1000) (\<lambda>after.
     Inr (AList.update ''after'' (JNum (of_int after)) params))))"

definition okx_rest_row :: "json \<Rightarrow> error + json list" where
  "okx_rest_row row =
     ebind (getindex row 0) (\<lambda>t.
     ebind (ensure_timestamp_in_seconds t) (\<lambda>ts.
     ebind (getindex row 1) (\<lambda>r1.
     ebind (getindex row 2) (\<lambda>r2.
     ebind (getindex row 3) (\<lambda>r3.
     ebind (getindex row 4) (\<lambda>r4.
     ebind (getindex row 5) (\<lambda>r5.
     ebind (getindex row 6) (\<lambda>r6.
     Inr [JNum (of_int ts), r1, r2, r3, r4, r5, r6, JNum 0, JNum 0, JNum 0]))))))))"

fun okx_rest_rows :: "json list \<Rightarrow> error + json list list" where
  "okx_rest_rows [] = Inr []"
| "okx_rest_rows (row # rows) =
     (case okx_rest_row row of
        Inl e \<Rightarrow> Inl e
      | Inr r \<Rightarrow>
          (case okx_rest_rows rows of
             Inl e \<Rightarrow> Inl e
           | Inr rs \<Rightarrow> Inr (r # rs)))"

definition okx_parse_rest_candles :: "json \<Rightarrow> error + json list list" where
  "okx_parse_rest_candles candles =
     ebind (getitem candles ''data'') (\<lambda>d.
     ebind (py_iter d) (\<lambda>rows.
     ebind (okx_rest_rows rows) (\<lambda>arr. Inr (rev arr))))"

definition okx_fetch_candles ::
  "constants \<Rightarrow> rest_executor \<Rightarrow> candles_base \<Rightarrow> int option \<Rightarrow> int option \<Rightarrow> error + ndarray" where
  "okx_fetch_candles K execute_request self start_time end_time =
     ebind (okx_fetch_params K self start_time end_time) (\<lambda>params.
     ebind (execute_request
              \<lparr>url = REST_URL K @ CANDLES_ENDPOINT K,
               throttler_limit_id = CANDLES_ENDPOINT K, params = Some params,
               data = None, headers = None, http_method = None\<rparr>) (\<lambda>candles.
     ebind (okx_parse_rest_candles candles) (\<lambda>arr.
     np_array_astype_float (Some arr))))"

definition okx_ws_subscription_payload :: "constants \<Rightarrow> candles_base \<Rightarrow> error + json" where
  "okx_ws_subscription_payload K self =
     ebind (intervals_getitem K (interval self)) (\<lambda>iv.
     Inr (JObj [(''op'', JStr ''subscribe''),
                (''args'',
                   JArr [JObj [(''channel'', JStr (''candle'' @ iv)),
                               (''instId'', JStr (ex_trading_pair self))]])]))"

definition okx_parse_websocket_message ::
  "json \<Rightarrow> error + (string \<times> json) list option" where
  "okx_parse_websocket_message msg =
     (if msg = JNull then Inr None
      else
        ebind (py_in ''data'' msg) (\<lambda>has_data.
          if has_data then
            ebind (getitem msg ''data'') (\<lambda>d.
            ebind (getindex d 0) (\<lambda>candles.
            ebind (getindex candles 0) (\<lambda>t.
            ebind (ensure_timestamp_in_seconds t) (\<lambda>ts.
            ebind (getindex candles 1) (\<lambda>c1.
            ebind (getindex candles 2) (\<lambda>c2.
            ebind (getindex candles 3) (\<lambda>c3.
            ebind (getindex candles 4) (\<lambda>c4.
            ebind (getindex candles 5) (\<lambda>c5.
            ebind (getindex candles 6) (\<lambda>c6.
            Inr (Some [(''timestamp'', JNum (of_int ts)),
                       (''open'', c1),
                       (''high'', c2),
                       (''low'', c3),
                       (''close'', c4),
                       (''volume'', c5),
                       (''quote_asset_volume'', c6),
                       (''n_trades'', JNum 0),
                       (''taker_buy_base_volume'', JNum 0),
                       (''taker_buy_quote_volume'', JNum 0)])))))))))))
          else Inr None))"

section \<open>Rows, wire order and well-formed responses\<close>

text \<open>The timestamp of a result row is its first cell.\<close>

fun row_timestamp :: "json list \<Rightarrow> rat option" where
  "row_timestamp (JNum q # cells) = Some q"
| "row_timestamp _ = None"

definition timestamp_less :: "rat option \<Rightarrow> rat option \<Rightarrow> bool" where
  "timestamp_less a b = (case (a, b) of (Some x, Some y) \<Rightarrow> x < y | _ \<Rightarrow> False)"

text \<open>Rows strictly ascending by timestamp, each row having one.\<close>

definition ascending_by_timestamp :: "json list list \<Rightarrow> bool" where
  "ascending_by_timestamp rows =
     (list_all (\<lambda>r. row_timestamp r \<noteq> None) rows
      \<and> sorted_wrt (\<lambda>a b. timestamp_less (row_timestamp a) (row_timestamp b)) rows)"

text \<open>
  A candle opens on a whole second, and both exchanges report the opening time in epoch
  milliseconds.
\<close>

definition epoch_milliseconds :: "rat \<Rightarrow> bool" where
  "epoch_milliseconds q = (10 ^ 12 \<le> q \<and> of_int \<lfloor>q / 1000\<rfloor> * 1000 = q)"

definition has_key :: "json \<Rightarrow> string \<Rightarrow> bool" where
  "has_key row k = (case getitem row k of Inl e \<Rightarrow> False | Inr v \<Rightarrow> True)"

text \<open>
  A well-formed Hyperliquid \<^verbatim>\<open>candleSnapshot\<close> response: a list of objects with the
  members \<^verbatim>\<open>t o h l c v n\<close>, \<^verbatim>\<open>t\<close> a number of epoch milliseconds, oldest candle first.
\<close>

definition hyperliquid_wire_timestamp :: "json \<Rightarrow> rat option" where
  "hyperliquid_wire_timestamp row =
     (case getitem row ''t'' of Inr (JNum q) \<Rightarrow> Some q | _ \<Rightarrow> None)"

definition hyperliquid_well_formed_row :: "json \<Rightarrow> bool" where
  "hyperliquid_well_formed_row row =
     ((case hyperliquid_wire_timestamp row of None \<Rightarrow> False | Some q \<Rightarrow> epoch_milliseconds q)
      \<and> list_all (has_key row) [''o'', ''h'', ''l'', ''c'', ''v'', ''n''])"

definition hyperliquid_well_formed :: "json \<Rightarrow> bool" where
  "hyperliquid_well_formed candles =
     (case candles of
        JArr rows \<Rightarrow>
          list_all hyperliquid_well_formed_row rows
          \<and> sorted_wrt (\<lambda>a b. timestamp_less (hyperliquid_wire_timestamp a)
                                               (hyperliquid_wire_timestamp b)) rows
      | _ \<Rightarrow> False)"

text \<open>
  A well-formed OKX candlesticks response: an object whose \<^verbatim>\<open>data\<close> is a list of arrays
  of at least seven cells, the first a decimal string of epoch milliseconds, newest candle
  first.
\<close>

definition okx_wire_timestamp :: "json \<Rightarrow> rat option" where
  "okx_wire_timestamp row =
     (case getindex row 0 of
        Inr (JStr s) \<Rightarrow> map_option of_nat (decimal_value s)
      | _ \<Rightarrow> None)"

definition okx_well_formed_row :: "json \<Rightarrow> bool" where
  "okx_well_formed_row row =
     ((case row of JArr cells \<Rightarrow> 7 \<le> length cells | _ \<Rightarrow> False)
      \<and> (case okx_wire_timestamp row of None \<Rightarrow> False | Some q \<Rightarrow> epoch_milliseconds q))"

definition okx_well_formed :: "json \<Rightarrow> bool" where
  "okx_well_formed candles =
     (case getitem candles ''data'' of
        Inr (JArr rows) \<Rightarrow>
          list_all okx_well_formed_row rows
          \<and> sorted_wrt (\<lambda>a b. timestamp_less (okx_wire_timestamp b) (okx_wire_timestamp a)) rows
      | _ \<Rightarrow> False)"





section \<open>Example feeds, responses and frames\<close>

text \<open>
  Concrete values on which the statements below are evaluated. The constants are examples
  of what the \<^verbatim>\<open>constants\<close> modules may hold.
\<close>

definition hyperliquid_example_constants :: constants where
  "hyperliquid_example_constants =
     \<lparr>REST_URL = ''https://api.hyperliquid.xyz/info'',
      WSS_URL = ''wss://api.hyperliquid.xyz/ws'',
      HEALTH_CHECK_ENDPOINT = ''/info'',
      HEALTH_CHECK_PAYLOAD = JObj [(''type'', JStr ''meta'')],
      CANDLES_ENDPOINT = ''candleSnapshot'',
      INTERVALS = [(''1m'', ''1m''), (''1h'', ''1h'')],
      MAX_RESULTS_PER_CANDLESTICK_REST_REQUEST = 500\<rparr>"

definition okx_example_constants :: constants where
  "okx_example_constants =
     \<lparr>REST_URL = ''https://www.okx.com'',
      WSS_URL = ''wss://ws.okx.com:8443/ws/v5/business'',
      HEALTH_CHECK_ENDPOINT = ''/api/v5/public/time'',
      HEALTH_CHECK_PAYLOAD = JNull,
      CANDLES_ENDPOINT = ''/api/v5/market/history-candles'',
      INTERVALS = [(''1m'', ''1m''), (''1h'', ''1H'')],
      MAX_RESULTS_PER_CANDLESTICK_REST_REQUEST = 100\<rparr>"

definition hyperliquid_example_feed :: hyperliquid_candles where
  "hyperliquid_example_feed =
     \<lparr>trading_pair = ''BTC-USD'', ex_trading_pair = ''BTCUSD'', interval = ''1m'',
      interval_in_seconds = 60, base_asset = ''BTC'', tokens = None\<rparr>"

definition okx_example_feed :: candles_base where
  "okx_example_feed =
     \<lparr>trading_pair = ''BTC-USDT'', ex_trading_pair = ''BTC-USDT'', interval = ''1h'',
      interval_in_seconds = 3600\<rparr>"

text \<open>Two one-minute Hyperliquid candles, 1700000040 and 1700000100 seconds, oldest first.\<close>

definition hyperliquid_example_response :: json where
  "hyperliquid_example_response =
     JArr [JObj [(''t'', JNum 1700000040000), (''T'', JNum 1700000099999),
                 (''s'', JStr ''BTC''), (''i'', JStr ''1m''),
                 (''o'', JStr ''35000.0''), (''c'', JStr ''35010.0''),
                 (''h'', JStr ''35020.0''), (''l'', JStr ''34990.0''),
                 (''v'', JStr ''12.5''), (''n'', JNum 42)],
           JObj [(''t'', JNum 1700000100000), (''T'', JNum 1700000159999),
                 (''s'', JStr ''BTC''), (''i'', JStr ''1m''),
                 (''o'', JStr ''35010.0''), (''c'', JStr ''35030.0''),
                 (''h'', JStr ''35040.0''), (''l'', JStr ''35000.0''),
                 (''v'', JStr ''7.25''), (''n'', JNum 17)]]"

text \<open>Two one-hour OKX candles, 1700006400 and 1700002800 seconds, newest first.\<close>

definition okx_example_response :: json where
  "okx_example_response =
     JObj [(''code'', JStr ''0''), (''msg'', JStr ''ok''),
           (''data'',
              JArr [JArr [JStr ''1700006400000'', JStr ''35010.0'', JStr ''35040.0'',
                          JStr ''35000.0'', JStr ''35030.0'', JStr ''7.25'',
                          JStr ''253967.5'', JStr ''253967.5'', JStr ''1''],
                    JArr [JStr ''1700002800000'', JStr ''35000.0'', JStr ''35020.0'',
                          JStr ''34990.0'', JStr ''35010.0'', JStr ''12.5'',
                          JStr ''437625.0'', JStr ''437625.0'', JStr ''1'']])]"

text \<open>A Hyperliquid candle frame and an OKX candle frame.\<close>

definition hyperliquid_example_candle_frame :: json where
  "hyperliquid_example_candle_frame =
     JObj [(''channel'', JStr ''candle''),
           (''data'',
              JObj [(''t'', JNum 1700000100000), (''T'', JNum 1700000159999),
                    (''s'', JStr ''BTC''), (''i'', JStr ''1m''),
                    (''o'', JStr ''35010.0''), (''c'', JStr ''35030.0''),
                    (''h'', JStr ''35040.0''), (''l'', JStr ''35000.0''),
                    (''v'', JStr ''7.25''), (''n'', JNum 17)])]"

definition okx_example_candle_frame :: json where
  "okx_example_candle_frame =
     JObj [(''arg'', JObj [(''channel'', JStr ''candle1H''), (''instId'', JStr ''BTC-USDT'')]),
           (''data'',
              JArr [JArr [JStr ''1700006400000'', JStr ''35010.0'', JStr ''35040.0'',
                          JStr ''35000.0'', JStr ''35030.0'', JStr ''7.25'',
                          JStr ''253967.5'', JStr ''253967.5'', JStr ''0'']])]"

text \<open>
  Frames that carry no candle: the acknowledgement of a subscription, a heartbeat, and a
  push on another channel (OKX \<^verbatim>\<open>tickers\<close>, Hyperliquid \<^verbatim>\<open>trades\<close>).
\<close>

definition hyperliquid_example_ack_frame :: json where
  "hyperliquid_example_ack_frame =
     JObj [(''channel'', JStr ''subscriptionResponse''),
           (''data'',
              JObj [(''method'', JStr ''subscribe''),
                    (''subscription'',
                       JObj [(''type'', JStr ''candle''), (''coin'', JStr ''BTC''),
                             (''interval'', JStr ''1m'')])])]"

definition hyperliquid_example_pong_frame :: json where
  "hyperliquid_example_pong_frame = JObj [(''channel'', JStr ''pong'')]"

definition hyperliquid_example_trades_frame :: json where
  "hyperliquid_example_trades_frame =
     JObj [(''channel'', JStr ''trades''),
           (''data'',
              JArr [JObj [(''coin'', JStr ''BTC''), (''side'', JStr ''B''),
                          (''px'', JStr ''35010.0''), (''sz'', JStr ''0.1''),
                          (''time'', JNum 1700000100123)]])]"

definition okx_example_ack_frame :: json where
  "okx_example_ack_frame =
     JObj [(''event'', JStr ''subscribe''),
           (''arg'', JObj [(''channel'', JStr ''candle1H''), (''instId'', JStr ''BTC-USDT'')]),
           (''connId'', JStr ''a4d3ae55'')]"

definition okx_example_pong_frame :: json where
  "okx_example_pong_frame = JStr ''pong''"

definition okx_example_tickers_frame :: json where
  "okx_example_tickers_frame =
     JObj [(''arg'', JObj [(''channel'', JStr ''tickers''), (''instId'', JStr ''BTC-USDT'')]),
           (''data'',
              JArr [JObj [(''instType'', JStr ''SPOT''), (''instId'', JStr ''BTC-USDT''),
                          (''last'', JStr ''35010.0''), (''ts'', JStr ''1700006400123'')]])]"

text \<open>REST executors that answer every request with the example response.\<close>

definition hyperliquid_example_executor :: rest_executor where
  "hyperliquid_example_executor request = Inr hyperliquid_example_response"


text \<open>
  REST executors that answer only the requests named here, and raise for any other: the
  Hyperliquid one answers the request for the 500 one-minute candles before 1700000160; the
  OKX one answers the request for the candles before 1700010000 with the example response,
  and the request for those after 1700002800 and before 1700010000 with the newest candle
  alone.
\<close>

definition hyperliquid_example_strict_executor :: rest_executor where
  "hyperliquid_example_strict_executor request =
     (if request =
           \<lparr>url = ''https://api.hyperliquid.xyz/info'',
            throttler_limit_id = ''https://api.hyperliquid.xyz/info'', params = None,
            data = Some (JObj [(''type'', JStr ''candleSnapshot''),
                               (''req'', JObj [(''interval'', JStr ''1m''),
                                               (''coin'', JStr ''BTC''),
                                               (''startTime'', JNum 1699970160000),
                                               (''endTime'', JNum 1700000160000)])]),
            headers = Some [(''Content-Type'', ''application/json'')],
            http_method = Some POST\<rparr>
      then Inr hyperliquid_example_response
      else Inl (IOError ''unexpected request''))"

definition okx_example_newest_response :: json where
  "okx_example_newest_response =
     JObj [(''code'', JStr ''0''), (''msg'', JStr ''ok''),
           (''data'',
              JArr [JArr [JStr ''1700006400000'', JStr ''35010.0'', JStr ''35040.0'',
                          JStr ''35000.0'', JStr ''35030.0'', JStr ''7.25'',
                          JStr ''253967.5'', JStr ''253967.5'', JStr ''1'']])]"

definition okx_example_strict_executor :: rest_executor where
  "okx_example_strict_executor request =
     (if request =
           \<lparr>url = ''https://www.okx.com/api/v5/market/history-candles'',
            throttler_limit_id = ''/api/v5/market/history-candles'',
            params = Some [(''instId'', JStr ''BTC-USDT''), (''bar'', JStr ''1H''),
                           (''after'', JNum 1700010000000)],
            data = None, headers = None, http_method = None\<rparr>
      then Inr okx_example_response
      else if request =
           \<lparr>url = ''https://www.okx.com/api/v5/market/history-candles'',
            throttler_limit_id = ''/api/v5/market/history-candles'',
            params = Some [(''instId'', JStr ''BTC-USDT''), (''bar'', JStr ''1H''),
                           (''before'', JNum 1700002800000),
                           (''after'', JNum 1700010000000)],
            data = None, headers = None, http_method = None\<rparr>
      then Inr okx_example_newest_response
      else Inl (IOError ''unexpected request''))"

section \<open>Auxiliary facts\<close>

lemma ebind_eq_Inr: "ebind m f = Inr y \<longleftrightarrow> (\<exists>x. m = Inr x \<and> f x = Inr y)"
  by (cases m) auto

lemma ebind_eq_Inl: "ebind m f = Inl e \<longleftrightarrow> m = Inl e \<or> (\<exists>x. m = Inr x \<and> f x = Inl e)"
  by (cases m) auto

lemma py_lt_eq_Inr: "py_lt a b = Inr r \<longleftrightarrow> (\<exists>e. b = Some e \<and> r = (a < e))"
  by (cases b) auto

lemmas float_literal_defs =
  float_literal_def floatnumber_def pointfloat_def drop_sign_def py_strip_def
  is_digit_def is_space_def caseless_eq_def Let_def


lemma list_all2_rightD:
  "list_all2 Q xs ys \<Longrightarrow> y \<in> set ys \<Longrightarrow> \<exists>x \<in> set xs. Q x y"
  by (induction xs ys rule: list_all2_induct) auto

lemma list_all2_sorted_wrt:
  assumes "list_all2 Q xs ys" and "sorted_wrt R xs"
    and mono: "\<And>x x' y y'. Q x y \<Longrightarrow> Q x' y' \<Longrightarrow> R x x' \<Longrightarrow> R' y y'"
  shows "sorted_wrt R' ys"
  using assms(1,2)
proof (induction xs ys rule: list_all2_induct)
  case Nil
  show ?case by simp
next
  case (Cons x xs y ys)
  have tail: "sorted_wrt R' ys"
    using Cons.IH Cons.prems by simp
  have head: "R' y y'" if yin: "y' \<in> set ys" for y'
  proof -
    obtain x' where x': "x' \<in> set xs" "Q x' y'"
      using list_all2_rightD [OF Cons.hyps(2) yin] by blast
    have "R x x'" using Cons.prems x'(1) by simp
    then show ?thesis using mono [OF Cons.hyps(1) x'(2)] by blast
  qed
  show ?case using tail head by simp
qed

subsection \<open>What a returned row is\<close>

lemma hyperliquid_row_condition_True:
  "hyperliquid_row_condition row end_time = Inr True \<longleftrightarrow>
     (\<exists>t ts e. getitem row ''t'' = Inr t \<and> ensure_timestamp_in_seconds t = Inr ts
        \<and> end_time = Some e \<and> ts < e)"
  unfolding hyperliquid_row_condition_def by (auto simp: ebind_eq_Inr py_lt_eq_Inr)

lemma hyperliquid_rest_row_Inr:
  "hyperliquid_rest_row row = Inr r \<Longrightarrow>
     (\<exists>t ts vo vh vl vc vv vn.
        getitem row ''t'' = Inr t \<and> ensure_timestamp_in_seconds t = Inr ts
        \<and> getitem row ''o'' = Inr vo \<and> getitem row ''h'' = Inr vh
        \<and> getitem row ''l'' = Inr vl \<and> getitem row ''c'' = Inr vc
        \<and> getitem row ''v'' = Inr vv \<and> getitem row ''n'' = Inr vn
        \<and> r = [JNum (of_int ts), vo, vh, vl, vc, vv, JNum 0, vn, JNum 0, JNum 0])"
  unfolding hyperliquid_rest_row_def by (auto simp: ebind_eq_Inr)

lemma hyperliquid_rest_rows_Inr:
  "hyperliquid_rest_rows rows end_time = Inr out \<Longrightarrow>
     list_all2 (\<lambda>row r. hyperliquid_rest_row row = Inr r)
       (filter (\<lambda>row. hyperliquid_row_condition row end_time = Inr True) rows) out"
  by (induction rows arbitrary: out) (auto split: sum.splits if_splits)

lemma hyperliquid_parse_rest_candles_Some:
  "hyperliquid_parse_rest_candles candles end_time = Inr (Some out) \<longleftrightarrow>
     (\<exists>n rows. py_len candles = Inr n \<and> 0 < n \<and> py_iter candles = Inr rows
        \<and> hyperliquid_rest_rows rows end_time = Inr out)"
  unfolding hyperliquid_parse_rest_candles_def
  by (auto simp: ebind_eq_Inr split: if_splits)

lemma okx_rest_row_Inr:
  "okx_rest_row row = Inr r \<Longrightarrow>
     (\<exists>t ts r1 r2 r3 r4 r5 r6.
        getindex row 0 = Inr t \<and> ensure_timestamp_in_seconds t = Inr ts
        \<and> getindex row 1 = Inr r1 \<and> getindex row 2 = Inr r2
        \<and> getindex row 3 = Inr r3 \<and> getindex row 4 = Inr r4
        \<and> getindex row 5 = Inr r5 \<and> getindex row 6 = Inr r6
        \<and> r = [JNum (of_int ts), r1, r2, r3, r4, r5, r6, JNum 0, JNum 0, JNum 0])"
  unfolding okx_rest_row_def by (auto simp: ebind_eq_Inr)

lemma okx_rest_rows_Inr:
  "okx_rest_rows rows = Inr out \<Longrightarrow> list_all2 (\<lambda>row r. okx_rest_row row = Inr r) rows out"
  by (induction rows arbitrary: out) (auto split: sum.splits)

lemma okx_parse_rest_candles_Inr:
  "okx_parse_rest_candles candles = Inr out \<Longrightarrow>
     \<exists>d rows. getitem candles ''data'' = Inr d \<and> py_iter d = Inr rows
        \<and> list_all2 (\<lambda>row r. okx_rest_row row = Inr r) rows (rev out)"
  unfolding okx_parse_rest_candles_def
  by (auto simp: ebind_eq_Inr dest: okx_rest_rows_Inr)

subsection \<open>The requests\<close>

lemma intervals_getitem_None:
  "map_of (INTERVALS K) iv = None \<Longrightarrow> intervals_getitem K iv = Inl (KeyError (JStr iv))"
  by (simp add: intervals_getitem_def)

lemma intervals_getitem_Some:
  "map_of (INTERVALS K) iv = Some tok \<Longrightarrow> intervals_getitem K iv = Inr tok"
  by (simp add: intervals_getitem_def)

lemma okx_fetch_params_Inr:
  "okx_fetch_params K self start_time end_time = Inr ps \<Longrightarrow>
     \<exists>bar e. intervals_getitem K (interval self) = Inr bar \<and> end_time = Some e
       \<and> ps = AList.update ''after'' (JNum (of_int (e * 1000)))
                (if truthy start_time
                 then AList.update ''before'' (JNum (of_int (the start_time * 1000)))
                        [(''instId'', JStr (ex_trading_pair self)), (''bar'', JStr bar)]
                 else [(''instId'', JStr (ex_trading_pair self)), (''bar'', JStr bar)])"
  unfolding okx_fetch_params_def
  by (cases start_time; cases end_time) (auto simp: ebind_eq_Inr Let_def split: if_splits)

lemma hyperliquid_fetch_request_mapped:
  assumes "map_of (INTERVALS K) (interval self) = Some tok"
  shows "\<exists>reqs. hyperliquid_fetch_request K self start_time end_time =
           Inr \<lparr>url = REST_URL K, throttler_limit_id = REST_URL K, params = None,
                data = Some (JObj [(''type'', JStr ''candleSnapshot''), (''req'', JObj reqs)]),
                headers = Some [(''Content-Type'', ''application/json'')],
                http_method = Some POST\<rparr>
         \<and> map_of reqs ''interval'' = Some (JStr tok)
         \<and> map_of reqs ''coin'' = Some (JStr (base_asset self))"
  unfolding hyperliquid_fetch_request_def
  by (cases start_time; cases end_time)
     (simp_all add: intervals_getitem_Some [OF assms] Let_def)

subsection \<open>Rows of a historical response\<close>

lemma hyperliquid_returned_row:
  assumes "hyperliquid_parse_rest_candles candles end_time = Inr (Some out)" and "r \<in> set out"
  shows "\<exists>rows row t ts e vo vh vl vc vv vn.
           py_iter candles = Inr rows \<and> row \<in> set rows
           \<and> getitem row ''t'' = Inr t \<and> ensure_timestamp_in_seconds t = Inr ts
           \<and> end_time = Some e \<and> ts < e
           \<and> getitem row ''o'' = Inr vo \<and> getitem row ''h'' = Inr vh
           \<and> getitem row ''l'' = Inr vl \<and> getitem row ''c'' = Inr vc
           \<and> getitem row ''v'' = Inr vv \<and> getitem row ''n'' = Inr vn
           \<and> r = [JNum (of_int ts), vo, vh, vl, vc, vv, JNum 0, vn, JNum 0, JNum 0]"
proof -
  obtain rows where rows: "py_iter candles = Inr rows"
      "hyperliquid_rest_rows rows end_time = Inr out"
    using assms(1) by (auto simp: hyperliquid_parse_rest_candles_Some)
  obtain row where row: "row \<in> set rows"
      "hyperliquid_row_condition row end_time = Inr True" "hyperliquid_rest_row row = Inr r"
    using list_all2_rightD [OF hyperliquid_rest_rows_Inr [OF rows(2)] assms(2)] by auto
  obtain t ts e where cond: "getitem row ''t'' = Inr t" "ensure_timestamp_in_seconds t = Inr ts"
      "end_time = Some e" "ts < e"
    using row(2) by (auto simp: hyperliquid_row_condition_True)
  show ?thesis
    using hyperliquid_rest_row_Inr [OF row(3)] rows(1) row(1) cond by auto
qed

lemma okx_returned_row:
  assumes "okx_parse_rest_candles candles = Inr out" and "r \<in> set out"
  shows "\<exists>d rows row t ts r1 r2 r3 r4 r5 r6.
           getitem candles ''data'' = Inr d \<and> py_iter d = Inr rows \<and> row \<in> set rows
           \<and> getindex row 0 = Inr t \<and> ensure_timestamp_in_seconds t = Inr ts
           \<and> getindex row 1 = Inr r1 \<and> getindex row 2 = Inr r2
           \<and> getindex row 3 = Inr r3 \<and> getindex row 4 = Inr r4
           \<and> getindex row 5 = Inr r5 \<and> getindex row 6 = Inr r6
           \<and> r = [JNum (of_int ts), r1, r2, r3, r4, r5, r6, JNum 0, JNum 0, JNum 0]"
proof -
  obtain d rows where rows: "getitem candles ''data'' = Inr d" "py_iter d = Inr rows"
      "list_all2 (\<lambda>row r. okx_rest_row row = Inr r) rows (rev out)"
    using okx_parse_rest_candles_Inr [OF assms(1)] by blast
  have "r \<in> set (rev out)" using assms(2) by simp
  then obtain row where row: "row \<in> set rows" "okx_rest_row row = Inr r"
    using list_all2_rightD [OF rows(3)] by blast
  show ?thesis
    using okx_rest_row_Inr [OF row(2)] rows(1,2) row(1) by auto
qed


lemma okx_fetch_candles_Array2d:
  "okx_fetch_candles K ex self start_time end_time = Inr (Array2d rows) \<Longrightarrow>
     \<exists>ps candles. okx_fetch_params K self start_time end_time = Inr ps
       \<and> ex \<lparr>url = REST_URL K @ CANDLES_ENDPOINT K,
              throttler_limit_id = CANDLES_ENDPOINT K, params = Some ps,
              data = None, headers = None, http_method = None\<rparr> = Inr candles
       \<and> okx_parse_rest_candles candles = Inr rows"
  unfolding okx_fetch_candles_def
  by (auto simp: ebind_eq_Inr split: if_splits)

subsection \<open>The dict of a websocket candle frame\<close>

lemma hyperliquid_parse_websocket_message_Some:
  "hyperliquid_parse_websocket_message msg = Inr (Some d) \<Longrightarrow>
     \<exists>candle t ts vo vl vh vc vv vn.
       py_get msg ''channel'' = Inr (JStr ''candle'') \<and> getitem msg ''data'' = Inr candle
       \<and> getitem candle ''t'' = Inr t \<and> ensure_timestamp_in_seconds t = Inr ts
       \<and> getitem candle ''o'' = Inr vo \<and> getitem candle ''l'' = Inr vl
       \<and> getitem candle ''h'' = Inr vh \<and> getitem candle ''c'' = Inr vc
       \<and> getitem candle ''v'' = Inr vv \<and> getitem candle ''n'' = Inr vn
       \<and> d = [(''timestamp'', JNum (of_int ts)), (''open'', vo), (''low'', vl),
              (''high'', vh), (''close'', vc), (''volume'', vv),
              (''quote_asset_volume'', JNum 0), (''n_trades'', vn),
              (''taker_buy_base_volume'', JNum 0), (''taker_buy_quote_volume'', JNum 0)]"
  unfolding hyperliquid_parse_websocket_message_def
  by (auto simp: ebind_eq_Inr split: if_splits)

lemma okx_parse_websocket_message_Some:
  "okx_parse_websocket_message msg = Inr (Some d) \<Longrightarrow>
     \<exists>dat candles t ts c1 c2 c3 c4 c5 c6.
       py_in ''data'' msg = Inr True \<and> getitem msg ''data'' = Inr dat
       \<and> getindex dat 0 = Inr candles
       \<and> getindex candles 0 = Inr t \<and> ensure_timestamp_in_seconds t = Inr ts
       \<and> getindex candles 1 = Inr c1 \<and> getindex candles 2 = Inr c2
       \<and> getindex candles 3 = Inr c3 \<and> getindex candles 4 = Inr c4
       \<and> getindex candles 5 = Inr c5 \<and> getindex candles 6 = Inr c6
       \<and> d = [(''timestamp'', JNum (of_int ts)), (''open'', c1), (''high'', c2),
              (''low'', c3), (''close'', c4), (''volume'', c5),
              (''quote_asset_volume'', c6), (''n_trades'', JNum 0),
              (''taker_buy_base_volume'', JNum 0), (''taker_buy_quote_volume'', JNum 0)]"
  unfolding okx_parse_websocket_message_def
  by (auto simp: ebind_eq_Inr split: if_splits)

subsection \<open>Well-formed responses\<close>

lemma whole_seconds_epoch_milliseconds:
  "epoch_milliseconds q \<Longrightarrow> of_int (whole_seconds q) * 1000 = q"
  by (simp add: epoch_milliseconds_def whole_seconds_def)

lemma whole_seconds_strict_mono:
  assumes "epoch_milliseconds a" and "epoch_milliseconds b" and "a < b"
  shows "whole_seconds a < whole_seconds b"
proof -
  have "(of_int (whole_seconds a) :: rat) * 1000 < of_int (whole_seconds b) * 1000"
    using assms by (simp add: whole_seconds_epoch_milliseconds)
  then have "(of_int (whole_seconds a) :: rat) < of_int (whole_seconds b)"
    by simp
  then show ?thesis by simp
qed

lemma hyperliquid_well_formed_rowD:
  assumes "hyperliquid_well_formed_row row"
  shows "\<exists>q vo vh vl vc vv vn.
           hyperliquid_wire_timestamp row = Some q \<and> epoch_milliseconds q
           \<and> getitem row ''t'' = Inr (JNum q)
           \<and> getitem row ''o'' = Inr vo \<and> getitem row ''h'' = Inr vh
           \<and> getitem row ''l'' = Inr vl \<and> getitem row ''c'' = Inr vc
           \<and> getitem row ''v'' = Inr vv \<and> getitem row ''n'' = Inr vn"
proof -
  obtain q where q: "hyperliquid_wire_timestamp row = Some q" "epoch_milliseconds q"
    using assms by (auto simp: hyperliquid_well_formed_row_def split: option.splits)
  have t: "getitem row ''t'' = Inr (JNum q)"
    using q(1) by (auto simp: hyperliquid_wire_timestamp_def split: sum.splits json.splits)
  have k: "\<exists>v. getitem row k = Inr v" if "has_key row k" for k
    using that by (auto simp: has_key_def split: sum.splits)
  have "has_key row ''o''" "has_key row ''h''" "has_key row ''l''"
       "has_key row ''c''" "has_key row ''v''" "has_key row ''n''"
    using assms by (simp_all add: hyperliquid_well_formed_row_def)
  then show ?thesis
    using q t by (blast dest: k)
qed

lemma hyperliquid_well_formed_rest_row:
  assumes "hyperliquid_well_formed_row row"
  shows "\<exists>q cells. hyperliquid_wire_timestamp row = Some q \<and> epoch_milliseconds q
           \<and> hyperliquid_rest_row row = Inr (JNum (of_int (whole_seconds q)) # cells)
           \<and> hyperliquid_row_condition row (Some e) = Inr (whole_seconds q < e)"
proof -
  obtain q vo vh vl vc vv vn where
    "hyperliquid_wire_timestamp row = Some q" "epoch_milliseconds q"
    "getitem row ''t'' = Inr (JNum q)"
    "getitem row ''o'' = Inr vo" "getitem row ''h'' = Inr vh"
    "getitem row ''l'' = Inr vl" "getitem row ''c'' = Inr vc"
    "getitem row ''v'' = Inr vv" "getitem row ''n'' = Inr vn"
    using hyperliquid_well_formed_rowD [OF assms] by blast
  then show ?thesis
    by (simp add: hyperliquid_rest_row_def hyperliquid_row_condition_def)
qed

lemma hyperliquid_rest_rows_total:
  "list_all hyperliquid_well_formed_row rows \<Longrightarrow>
     \<exists>out. hyperliquid_rest_rows rows (Some e) = Inr out"
proof (induction rows)
  case Nil
  show ?case by simp
next
  case (Cons row rows)
  obtain q cells where
    "hyperliquid_rest_row row = Inr (JNum (of_int (whole_seconds q)) # cells)"
    "hyperliquid_row_condition row (Some e) = Inr (whole_seconds q < e)"
    using hyperliquid_well_formed_rest_row [of row e] Cons.prems by auto
  moreover obtain out where "hyperliquid_rest_rows rows (Some e) = Inr out"
    using Cons by auto
  ultimately show ?case by simp
qed

lemma hyperliquid_rest_rows_ascending:
  assumes out: "hyperliquid_rest_rows rows end_time = Inr out"
    and wf: "list_all hyperliquid_well_formed_row rows"
    and asc: "sorted_wrt (\<lambda>a b. timestamp_less (hyperliquid_wire_timestamp a)
                                               (hyperliquid_wire_timestamp b)) rows"
  shows "ascending_by_timestamp out"
proof -
  let ?Q = "\<lambda>row r. hyperliquid_rest_row row = Inr r"
  let ?keep = "\<lambda>row. hyperliquid_row_condition row end_time = Inr True"
  let ?R = "\<lambda>a b. hyperliquid_well_formed_row a \<and> hyperliquid_well_formed_row b
              \<and> timestamp_less (hyperliquid_wire_timestamp a) (hyperliquid_wire_timestamp b)"
  let ?R' = "\<lambda>a b. timestamp_less (row_timestamp a) (row_timestamp b)"
  have all2: "list_all2 ?Q (filter ?keep rows) out"
    using hyperliquid_rest_rows_Inr [OF out] .
  have "sorted_wrt ?R rows"
    using asc wf by (auto simp: list_all_iff intro: sorted_wrt_mono_rel [rotated])
  then have sorted_in: "sorted_wrt ?R (filter ?keep rows)"
    by (rule sorted_wrt_filter)
  have step: "?R' y y'" if qx: "?Q x y" and qx': "?Q x' y'" and rel: "?R x x'" for x x' y y'
  proof -
    obtain q cells where x: "hyperliquid_wire_timestamp x = Some q" "epoch_milliseconds q"
        "hyperliquid_rest_row x = Inr (JNum (of_int (whole_seconds q)) # cells)"
      using hyperliquid_well_formed_rest_row [of x 0] rel by blast
    obtain q' cells' where x': "hyperliquid_wire_timestamp x' = Some q'" "epoch_milliseconds q'"
        "hyperliquid_rest_row x' = Inr (JNum (of_int (whole_seconds q')) # cells')"
      using hyperliquid_well_formed_rest_row [of x' 0] rel by blast
    have "q < q'"
      using rel x(1) x'(1) by (simp add: timestamp_less_def)
    then have "whole_seconds q < whole_seconds q'"
      using whole_seconds_strict_mono x(2) x'(2) by blast
    then show ?thesis
      using qx qx' x(3) x'(3) by (auto simp: timestamp_less_def)
  qed
  have sorted_out: "sorted_wrt ?R' out"
  proof (rule list_all2_sorted_wrt [where Q = ?Q and R = ?R and R' = ?R', OF all2 sorted_in])
    fix x x' y y'
    assume "?Q x y" and "?Q x' y'" and "?R x x'"
    then show "?R' y y'" by (rule step)
  qed
  have "row_timestamp r \<noteq> None" if rin: "r \<in> set out" for r
  proof -
    obtain x where "?Q x r"
      using list_all2_rightD [OF all2 rin] by blast
    then show ?thesis
      using hyperliquid_rest_row_Inr [of x r] by auto
  qed
  then show ?thesis
    using sorted_out by (simp add: ascending_by_timestamp_def list_all_iff)
qed

lemma okx_well_formed_rest_row:
  assumes "okx_well_formed_row row"
  shows "\<exists>q cells. okx_wire_timestamp row = Some q \<and> epoch_milliseconds q
           \<and> okx_rest_row row = Inr (JNum (of_int (whole_seconds q)) # cells)"
proof -
  obtain xs where xs: "row = JArr xs" "7 \<le> length xs"
    using assms by (auto simp: okx_well_formed_row_def split: json.splits)
  obtain q where q: "okx_wire_timestamp row = Some q" "epoch_milliseconds q"
    using assms by (auto simp: okx_well_formed_row_def split: option.splits)
  obtain s n where s: "getindex row 0 = Inr (JStr s)" "decimal_value s = Some n" "q = of_nat n"
    using q(1) by (auto simp: okx_wire_timestamp_def split: sum.splits json.splits)
  have "okx_rest_row row = Inr [JNum (of_int (whole_seconds q)), xs ! 1, xs ! 2, xs ! 3,
          xs ! 4, xs ! 5, xs ! 6, JNum 0, JNum 0, JNum 0]"
    using xs s by (simp add: okx_rest_row_def)
  then show ?thesis
    using q by blast
qed

lemma okx_rest_rows_total:
  "list_all okx_well_formed_row rows \<Longrightarrow> \<exists>out. okx_rest_rows rows = Inr out"
proof (induction rows)
  case Nil
  show ?case by simp
next
  case (Cons row rows)
  obtain q cells where "okx_rest_row row = Inr (JNum (of_int (whole_seconds q)) # cells)"
    using okx_well_formed_rest_row [of row] Cons.prems by auto
  moreover obtain out where "okx_rest_rows rows = Inr out"
    using Cons by auto
  ultimately show ?case by simp
qed

lemma okx_rest_rows_ascending:
  assumes out: "okx_rest_rows rows = Inr out"
    and wf: "list_all okx_well_formed_row rows"
    and desc: "sorted_wrt (\<lambda>a b. timestamp_less (okx_wire_timestamp b)
                                                (okx_wire_timestamp a)) rows"
  shows "ascending_by_timestamp (rev out)"
proof -
  let ?Q = "\<lambda>row r. okx_rest_row row = Inr r"
  let ?R = "\<lambda>a b. okx_well_formed_row a \<and> okx_well_formed_row b
              \<and> timestamp_less (okx_wire_timestamp b) (okx_wire_timestamp a)"
  let ?R' = "\<lambda>a b. timestamp_less (row_timestamp b) (row_timestamp a)"
  have all2: "list_all2 ?Q rows out"
    using okx_rest_rows_Inr [OF out] .
  have sorted_in: "sorted_wrt ?R rows"
    using desc wf by (auto simp: list_all_iff intro: sorted_wrt_mono_rel [rotated])
  have step: "?R' y y'" if qx: "?Q x y" and qx': "?Q x' y'" and rel: "?R x x'" for x x' y y'
  proof -
    obtain q cells where x: "okx_wire_timestamp x = Some q" "epoch_milliseconds q"
        "okx_rest_row x = Inr (JNum (of_int (whole_seconds q)) # cells)"
      using okx_well_formed_rest_row [of x] rel by blast
    obtain q' cells' where x': "okx_wire_timestamp x' = Some q'" "epoch_milliseconds q'"
        "okx_rest_row x' = Inr (JNum (of_int (whole_seconds q')) # cells')"
      using okx_well_formed_rest_row [of x'] rel by blast
    have "q' < q"
      using rel x(1) x'(1) by (simp add: timestamp_less_def)
    then have "whole_seconds q' < whole_seconds q"
      using whole_seconds_strict_mono x(2) x'(2) by blast
    then show ?thesis
      using qx qx' x(3) x'(3) by (auto simp: timestamp_less_def)
  qed
  have "sorted_wrt ?R' out"
  proof (rule list_all2_sorted_wrt [where Q = ?Q and R = ?R and R' = ?R', OF all2 sorted_in])
    fix x x' y y'
    assume "?Q x y" and "?Q x' y'" and "?R x x'"
    then show "?R' y y'" by (rule step)
  qed
  then have sorted_out:
    "sorted_wrt (\<lambda>a b. timestamp_less (row_timestamp a) (row_timestamp b)) (rev out)"
    by (simp add: sorted_wrt_rev)
  have "row_timestamp r \<noteq> None" if rin: "r \<in> set out" for r
  proof -
    obtain x where "?Q x r"
      using list_all2_rightD [OF all2 rin] by blast
    then show ?thesis
      using okx_rest_row_Inr [of x r] by auto
  qed
  then show ?thesis
    using sorted_out by (simp add: ascending_by_timestamp_def list_all_iff)
qed

subsection \<open>Numeric responses\<close>







subsection \<open>What a fetch hands to the executor\<close>

lemma okx_fetch_candles_sends:
  assumes "okx_fetch_params K self start_time end_time = Inr ps"
  shows "okx_fetch_candles K ex self start_time end_time =
           ebind (ex \<lparr>url = REST_URL K @ CANDLES_ENDPOINT K,
                       throttler_limit_id = CANDLES_ENDPOINT K, params = Some ps,
                       data = None, headers = None, http_method = None\<rparr>)
             (\<lambda>candles. ebind (okx_parse_rest_candles candles)
                (\<lambda>arr. np_array_astype_float (Some arr)))"
  by (simp add: okx_fetch_candles_def assms)

lemma hyperliquid_fetch_candles_sends:
  assumes "hyperliquid_fetch_request K self start_time end_time = Inr request"
  shows "hyperliquid_fetch_candles K ex self start_time end_time =
           ebind (ex request)
             (\<lambda>candles. ebind (hyperliquid_parse_rest_candles candles end_time)
                np_array_astype_float)"
  by (simp add: hyperliquid_fetch_candles_def assms)

lemma okx_fetch_params_mapped:
  assumes "map_of (INTERVALS K) (interval self) = Some bar"
  shows "okx_fetch_params K self None (Some e)
           = Inr [(''instId'', JStr (ex_trading_pair self)), (''bar'', JStr bar),
                  (''after'', JNum (of_int (e * 1000)))]"
    and "okx_fetch_params K self (Some 0) (Some e)
           = Inr [(''instId'', JStr (ex_trading_pair self)), (''bar'', JStr bar),
                  (''after'', JNum (of_int (e * 1000)))]"
    and "s \<noteq> 0 \<Longrightarrow> okx_fetch_params K self (Some s) (Some e)
           = Inr [(''instId'', JStr (ex_trading_pair self)), (''bar'', JStr bar),
                  (''before'', JNum (of_int (s * 1000))),
                  (''after'', JNum (of_int (e * 1000)))]"
  using intervals_getitem_Some [OF assms]
  by (simp_all add: okx_fetch_params_def)

lemma okx_fetch_params_no_end_time:
  assumes "map_of (INTERVALS K) (interval self) = Some bar"
  shows "okx_fetch_params K self start_time None = Inl TypeError"
  using intervals_getitem_Some [OF assms]
  by (cases start_time) (auto simp: okx_fetch_params_def Let_def)

section \<open>Health check\<close>

text \<open>
  C10. Neither \<^verbatim>\<open>check_network\<close> ever returns \<open>DISCONNECTED\<close>: when the health-check
  request completes, the status is \<open>CONNECTED\<close> (Hyperliquid also stores the response in
  \<^verbatim>\<open>_tokens\<close>); when the request raises, the same exception leaves \<^verbatim>\<open>check_network\<close>.
\<close>

theorem check_network_never_disconnected:
  "(\<forall>self'. hyperliquid_check_network K ex self \<noteq> Inr (DISCONNECTED, self'))
   \<and> okx_check_network K ex self2 \<noteq> Inr DISCONNECTED
   \<and> (\<forall>response.
        ex \<lparr>url = REST_URL K, throttler_limit_id = REST_URL K, params = None,
            data = Some (HEALTH_CHECK_PAYLOAD K), headers = None, http_method = Some POST\<rparr>
          = Inr response
        \<longrightarrow> hyperliquid_check_network K ex self
              = Inr (CONNECTED, self\<lparr>tokens := Some response\<rparr>))
   \<and> (\<forall>e.
        ex \<lparr>url = REST_URL K, throttler_limit_id = REST_URL K, params = None,
            data = Some (HEALTH_CHECK_PAYLOAD K), headers = None, http_method = Some POST\<rparr>
          = Inl e
        \<longrightarrow> hyperliquid_check_network K ex self = Inl e)
   \<and> (\<forall>response.
        ex \<lparr>url = REST_URL K @ HEALTH_CHECK_ENDPOINT K,
            throttler_limit_id = HEALTH_CHECK_ENDPOINT K, params = None,
            data = None, headers = None, http_method = None\<rparr> = Inr response
        \<longrightarrow> okx_check_network K ex self2 = Inr CONNECTED)
   \<and> (\<forall>e.
        ex \<lparr>url = REST_URL K @ HEALTH_CHECK_ENDPOINT K,
            throttler_limit_id = HEALTH_CHECK_ENDPOINT K, params = None,
            data = None, headers = None, http_method = None\<rparr> = Inl e
        \<longrightarrow> okx_check_network K ex self2 = Inl e)"
  unfolding hyperliquid_check_network_def okx_check_network_def
  by (auto split: sum.splits elim!: ebind.elims)

theorem check_network_never_disconnected_witness:
  "hyperliquid_check_network hyperliquid_example_constants (\<lambda>request. Inr JNull)
       hyperliquid_example_feed
     = Inr (CONNECTED, hyperliquid_example_feed\<lparr>tokens := Some JNull\<rparr>)
   \<and> okx_check_network okx_example_constants (\<lambda>request. Inr JNull) okx_example_feed
     = Inr CONNECTED
   \<and> hyperliquid_check_network hyperliquid_example_constants
       (\<lambda>request. Inl (IOError ''timeout'')) hyperliquid_example_feed
     = Inl (IOError ''timeout'')
   \<and> okx_check_network okx_example_constants
       (\<lambda>request. Inl (IOError ''timeout'')) okx_example_feed
     = Inl (IOError ''timeout'')"
  using check_network_never_disconnected
          [of hyperliquid_example_constants "\<lambda>request. Inr JNull" hyperliquid_example_feed]
        check_network_never_disconnected
          [of okx_example_constants "\<lambda>request. Inr JNull" _ okx_example_feed]
        check_network_never_disconnected
          [of hyperliquid_example_constants "\<lambda>request. Inl (IOError ''timeout'')"
              hyperliquid_example_feed]
        check_network_never_disconnected
          [of okx_example_constants "\<lambda>request. Inl (IOError ''timeout'')" _ okx_example_feed]
  by simp

section \<open>An empty Hyperliquid response\<close>

text \<open>
  C8. \<^verbatim>\<open>_parse_rest_candles\<close> of Hyperliquid returns \<^verbatim>\<open>None\<close>, not an empty list, when
  the response has no rows (its length is 0), for any \<^verbatim>\<open>end_time\<close>. \<^verbatim>\<open>fetch_candles\<close> then
  returns \<^verbatim>\<open>np.array(None).astype(float)\<close>, the 0-dimensional nan array, which is not an
  empty sequence of rows.
\<close>

theorem hyperliquid_empty_response_is_None:
  "hyperliquid_parse_rest_candles (JArr []) end_time = Inr None
   \<and> (\<forall>candles. py_len candles = Inr 0 \<longrightarrow>
          hyperliquid_parse_rest_candles candles end_time = Inr None)
   \<and> (\<forall>candles request. py_len candles = Inr 0
          \<and> hyperliquid_fetch_request K self start_time end_time = Inr request
          \<and> execute_request request = Inr candles \<longrightarrow>
          hyperliquid_fetch_candles K execute_request self start_time end_time = Inr Array0d_nan
          \<and> hyperliquid_fetch_candles K execute_request self start_time end_time
              \<noteq> Inr (Array2d []))"
  by (simp add: hyperliquid_parse_rest_candles_def hyperliquid_fetch_candles_def)

theorem hyperliquid_empty_response_is_None_witness:
  "hyperliquid_fetch_candles hyperliquid_example_constants (\<lambda>request. Inr (JArr []))
      hyperliquid_example_feed None (Some 1700000160) = Inr Array0d_nan
   \<and> hyperliquid_parse_rest_candles (JObj []) (Some 1700000160) = Inr None"
proof -
  obtain request where
    "hyperliquid_fetch_request hyperliquid_example_constants hyperliquid_example_feed
       None (Some 1700000160) = Inr request"
    by (auto simp: hyperliquid_fetch_request_def intervals_getitem_def
          hyperliquid_example_constants_def hyperliquid_example_feed_def)
  then show ?thesis
    using hyperliquid_empty_response_is_None
            [of "Some 1700000160" hyperliquid_example_constants hyperliquid_example_feed
                None "\<lambda>request. Inr (JArr [])"]
    by simp
qed

section \<open>The start bound of an OKX request\<close>

text \<open>
  C9. \<^verbatim>\<open>fetch_candles\<close> of OKX tests \<^verbatim>\<open>if start_time:\<close>, so \<^verbatim>\<open>start_time = 0\<close> gives the
  same request parameters, and the same result, as no \<^verbatim>\<open>start_time\<close>: in both cases the
  parameters have no \<^verbatim>\<open>before\<close>. Any other \<^verbatim>\<open>start_time\<close> is sent as \<^verbatim>\<open>before\<close>,
  multiplied by 1000. These parameters are what the call hands to the REST executor: for a
  mapped interval and an \<^verbatim>\<open>end_time\<close>, the result of \<^verbatim>\<open>fetch_candles\<close> is what the
  executor answers to the request with exactly these parameters (\<^verbatim>\<open>instId\<close>, \<^verbatim>\<open>bar\<close>,
  \<^verbatim>\<open>after\<close>, and \<^verbatim>\<open>before\<close> only for a \<^verbatim>\<open>start_time\<close> other than 0), parsed and
  converted; an exception of the executor on that request leaves \<^verbatim>\<open>fetch_candles\<close>.
\<close>

theorem okx_start_time_zero_is_no_start:
  "okx_fetch_params K self (Some 0) end_time = okx_fetch_params K self None end_time
   \<and> okx_fetch_candles K ex self (Some 0) end_time = okx_fetch_candles K ex self None end_time
   \<and> (\<forall>ps. okx_fetch_params K self None end_time = Inr ps \<longrightarrow> map_of ps ''before'' = None)
   \<and> (\<forall>s ps. s \<noteq> 0 \<and> okx_fetch_params K self (Some s) end_time = Inr ps
        \<longrightarrow> map_of ps ''before'' = Some (JNum (of_int (s * 1000))))
   \<and> (\<forall>bar e. map_of (INTERVALS K) (interval self) = Some bar \<longrightarrow>
        okx_fetch_params K self None (Some e)
          = Inr [(''instId'', JStr (ex_trading_pair self)), (''bar'', JStr bar),
                 (''after'', JNum (of_int (e * 1000)))]
        \<and> okx_fetch_candles K ex self None (Some e)
          = ebind (ex \<lparr>url = REST_URL K @ CANDLES_ENDPOINT K,
                      throttler_limit_id = CANDLES_ENDPOINT K,
                      params = Some [(''instId'', JStr (ex_trading_pair self)),
                                     (''bar'', JStr bar),
                                     (''after'', JNum (of_int (e * 1000)))],
                      data = None, headers = None, http_method = None\<rparr>)
              (\<lambda>candles. ebind (okx_parse_rest_candles candles)
                 (\<lambda>arr. np_array_astype_float (Some arr)))
        \<and> (\<forall>s. s \<noteq> 0 \<longrightarrow>
              okx_fetch_params K self (Some s) (Some e)
                = Inr [(''instId'', JStr (ex_trading_pair self)), (''bar'', JStr bar),
                       (''before'', JNum (of_int (s * 1000))),
                       (''after'', JNum (of_int (e * 1000)))]
              \<and> okx_fetch_candles K ex self (Some s) (Some e)
                = ebind (ex \<lparr>url = REST_URL K @ CANDLES_ENDPOINT K,
                            throttler_limit_id = CANDLES_ENDPOINT K,
                            params = Some [(''instId'', JStr (ex_trading_pair self)),
                                           (''bar'', JStr bar),
                                           (''before'', JNum (of_int (s * 1000))),
                                           (''after'', JNum (of_int (e * 1000)))],
                            data = None, headers = None, http_method = None\<rparr>)
                    (\<lambda>candles. ebind (okx_parse_rest_candles candles)
                       (\<lambda>arr. np_array_astype_float (Some arr)))))"
proof -
  have same: "okx_fetch_params K self (Some 0) end_time = okx_fetch_params K self None end_time"
    by (simp add: okx_fetch_params_def)
  have absent: "map_of ps ''before'' = None"
    if "okx_fetch_params K self None end_time = Inr ps" for ps
    using okx_fetch_params_Inr [OF that] by (auto simp: update_conv')
  have sent: "map_of ps ''before'' = Some (JNum (of_int (s * 1000)))"
    if "s \<noteq> 0" "okx_fetch_params K self (Some s) end_time = Inr ps" for s ps
    using okx_fetch_params_Inr [OF that(2)] that(1) by (auto simp: update_conv')
  have no_start: "okx_fetch_params K self None (Some e)
          = Inr [(''instId'', JStr (ex_trading_pair self)), (''bar'', JStr bar),
                 (''after'', JNum (of_int (e * 1000)))]
        \<and> okx_fetch_candles K ex self None (Some e)
          = ebind (ex \<lparr>url = REST_URL K @ CANDLES_ENDPOINT K,
                      throttler_limit_id = CANDLES_ENDPOINT K,
                      params = Some [(''instId'', JStr (ex_trading_pair self)),
                                     (''bar'', JStr bar),
                                     (''after'', JNum (of_int (e * 1000)))],
                      data = None, headers = None, http_method = None\<rparr>)
              (\<lambda>candles. ebind (okx_parse_rest_candles candles)
                 (\<lambda>arr. np_array_astype_float (Some arr)))"
    if "map_of (INTERVALS K) (interval self) = Some bar" for bar e
    using okx_fetch_params_mapped(1) [OF that, of e]
    by (simp add: okx_fetch_candles_sends)
  have with_start: "okx_fetch_params K self (Some s) (Some e)
                = Inr [(''instId'', JStr (ex_trading_pair self)), (''bar'', JStr bar),
                       (''before'', JNum (of_int (s * 1000))),
                       (''after'', JNum (of_int (e * 1000)))]
              \<and> okx_fetch_candles K ex self (Some s) (Some e)
                = ebind (ex \<lparr>url = REST_URL K @ CANDLES_ENDPOINT K,
                            throttler_limit_id = CANDLES_ENDPOINT K,
                            params = Some [(''instId'', JStr (ex_trading_pair self)),
                                           (''bar'', JStr bar),
                                           (''before'', JNum (of_int (s * 1000))),
                                           (''after'', JNum (of_int (e * 1000)))],
                            data = None, headers = None, http_method = None\<rparr>)
                    (\<lambda>candles. ebind (okx_parse_rest_candles candles)
                       (\<lambda>arr. np_array_astype_float (Some arr)))"
    if "map_of (INTERVALS K) (interval self) = Some bar" "s \<noteq> 0" for bar e s
    using okx_fetch_params_mapped(3) [OF that, of e]
    by (simp add: okx_fetch_candles_sends)
  have equal: "okx_fetch_candles K ex self (Some 0) end_time
                 = okx_fetch_candles K ex self None end_time"
    using same by (simp add: okx_fetch_candles_def)
  show ?thesis
    using same equal absent sent no_start with_start by blast
qed

theorem okx_start_time_zero_is_no_start_witness:
  "okx_fetch_params okx_example_constants okx_example_feed (Some 0) (Some 1700010000)
     = Inr [(''instId'', JStr ''BTC-USDT''), (''bar'', JStr ''1H''),
            (''after'', JNum 1700010000000)]
   \<and> okx_fetch_params okx_example_constants okx_example_feed None (Some 1700010000)
     = Inr [(''instId'', JStr ''BTC-USDT''), (''bar'', JStr ''1H''),
            (''after'', JNum 1700010000000)]
   \<and> okx_fetch_params okx_example_constants okx_example_feed (Some 1700002800)
       (Some 1700010000)
     = Inr [(''instId'', JStr ''BTC-USDT''), (''bar'', JStr ''1H''),
            (''before'', JNum 1700002800000), (''after'', JNum 1700010000000)]
   \<and> map_of [(''instId'', JStr ''BTC-USDT''), (''bar'', JStr ''1H''),
            (''after'', JNum 1700010000000)] ''before'' = None
   \<and> map_of [(''instId'', JStr ''BTC-USDT''), (''bar'', JStr ''1H''),
            (''before'', JNum 1700002800000), (''after'', JNum 1700010000000)] ''before''
       = Some (JNum (of_int (1700002800 * 1000)))
   \<and> okx_fetch_candles okx_example_constants okx_example_strict_executor okx_example_feed
       (Some 0) (Some 1700010000)
     = Inr (Array2d
        [[JNum 1700002800, JStr ''35000.0'', JStr ''35020.0'', JStr ''34990.0'',
          JStr ''35010.0'', JStr ''12.5'', JStr ''437625.0'', JNum 0, JNum 0, JNum 0],
         [JNum 1700006400, JStr ''35010.0'', JStr ''35040.0'', JStr ''35000.0'',
          JStr ''35030.0'', JStr ''7.25'', JStr ''253967.5'', JNum 0, JNum 0, JNum 0]])
   \<and> okx_fetch_candles okx_example_constants okx_example_strict_executor okx_example_feed
       None (Some 1700010000)
     = Inr (Array2d
        [[JNum 1700002800, JStr ''35000.0'', JStr ''35020.0'', JStr ''34990.0'',
          JStr ''35010.0'', JStr ''12.5'', JStr ''437625.0'', JNum 0, JNum 0, JNum 0],
         [JNum 1700006400, JStr ''35010.0'', JStr ''35040.0'', JStr ''35000.0'',
          JStr ''35030.0'', JStr ''7.25'', JStr ''253967.5'', JNum 0, JNum 0, JNum 0]])
   \<and> okx_fetch_candles okx_example_constants okx_example_strict_executor okx_example_feed
       (Some 1700002800) (Some 1700010000)
     = Inr (Array2d
        [[JNum 1700006400, JStr ''35010.0'', JStr ''35040.0'', JStr ''35000.0'',
          JStr ''35030.0'', JStr ''7.25'', JStr ''253967.5'', JNum 0, JNum 0, JNum 0]])"
proof -
  note start =
    okx_start_time_zero_is_no_start
      [of okx_example_constants okx_example_feed "Some 1700010000"
          okx_example_strict_executor]
  have mapped:
    "map_of (INTERVALS okx_example_constants) (interval okx_example_feed) = Some ''1H''"
    by (simp add: okx_example_constants_def okx_example_feed_def)
  have fixture: "ex_trading_pair okx_example_feed = ''BTC-USDT''"
      "REST_URL okx_example_constants @ CANDLES_ENDPOINT okx_example_constants
         = ''https://www.okx.com/api/v5/market/history-candles''"
      "CANDLES_ENDPOINT okx_example_constants = ''/api/v5/market/history-candles''"
    by (simp_all add: okx_example_constants_def okx_example_feed_def)
  have all: "\<forall>bar e. map_of (INTERVALS okx_example_constants) (interval okx_example_feed)
                 = Some bar \<longrightarrow>
        okx_fetch_params okx_example_constants okx_example_feed None (Some e)
          = Inr [(''instId'', JStr (ex_trading_pair okx_example_feed)), (''bar'', JStr bar),
                 (''after'', JNum (of_int (e * 1000)))]
        \<and> okx_fetch_candles okx_example_constants okx_example_strict_executor
              okx_example_feed None (Some e)
          = ebind (okx_example_strict_executor
                     \<lparr>url = REST_URL okx_example_constants
                              @ CANDLES_ENDPOINT okx_example_constants,
                      throttler_limit_id = CANDLES_ENDPOINT okx_example_constants,
                      params = Some [(''instId'', JStr (ex_trading_pair okx_example_feed)),
                                     (''bar'', JStr bar),
                                     (''after'', JNum (of_int (e * 1000)))],
                      data = None, headers = None, http_method = None\<rparr>)
              (\<lambda>candles. ebind (okx_parse_rest_candles candles)
                 (\<lambda>arr. np_array_astype_float (Some arr)))
        \<and> (\<forall>s. s \<noteq> 0 \<longrightarrow>
              okx_fetch_params okx_example_constants okx_example_feed (Some s) (Some e)
                = Inr [(''instId'', JStr (ex_trading_pair okx_example_feed)),
                       (''bar'', JStr bar),
                       (''before'', JNum (of_int (s * 1000))),
                       (''after'', JNum (of_int (e * 1000)))]
              \<and> okx_fetch_candles okx_example_constants okx_example_strict_executor
                    okx_example_feed (Some s) (Some e)
                = ebind (okx_example_strict_executor
                           \<lparr>url = REST_URL okx_example_constants
                                    @ CANDLES_ENDPOINT okx_example_constants,
                            throttler_limit_id = CANDLES_ENDPOINT okx_example_constants,
                            params = Some [(''instId'', JStr (ex_trading_pair okx_example_feed)),
                                           (''bar'', JStr bar),
                                           (''before'', JNum (of_int (s * 1000))),
                                           (''after'', JNum (of_int (e * 1000)))],
                            data = None, headers = None, http_method = None\<rparr>)
                    (\<lambda>candles. ebind (okx_parse_rest_candles candles)
                       (\<lambda>arr. np_array_astype_float (Some arr))))"
    using start by blast
  note inst = all [rule_format, OF mapped, of 1700010000]
  have p0: "okx_fetch_params okx_example_constants okx_example_feed None (Some 1700010000)
     = Inr [(''instId'', JStr ''BTC-USDT''), (''bar'', JStr ''1H''),
            (''after'', JNum 1700010000000)]"
    using inst fixture by simp
  have p1: "okx_fetch_params okx_example_constants okx_example_feed (Some 1700002800)
              (Some 1700010000)
     = Inr [(''instId'', JStr ''BTC-USDT''), (''bar'', JStr ''1H''),
            (''before'', JNum 1700002800000), (''after'', JNum 1700010000000)]"
    using inst [THEN conjunct2, THEN conjunct2, rule_format, of 1700002800] fixture by simp
  have f0: "okx_fetch_candles okx_example_constants okx_example_strict_executor
       okx_example_feed None (Some 1700010000)
     = Inr (Array2d
        [[JNum 1700002800, JStr ''35000.0'', JStr ''35020.0'', JStr ''34990.0'',
          JStr ''35010.0'', JStr ''12.5'', JStr ''437625.0'', JNum 0, JNum 0, JNum 0],
         [JNum 1700006400, JStr ''35010.0'', JStr ''35040.0'', JStr ''35000.0'',
          JStr ''35030.0'', JStr ''7.25'', JStr ''253967.5'', JNum 0, JNum 0, JNum 0]])"
    using inst [THEN conjunct2, THEN conjunct1] fixture
    by (simp add: okx_example_strict_executor_def
          okx_parse_rest_candles_def okx_example_response_def okx_rest_row_def
          whole_seconds_def decimal_value_def digit_value_def float_literal_defs)
  have f1: "okx_fetch_candles okx_example_constants okx_example_strict_executor
       okx_example_feed (Some 1700002800) (Some 1700010000)
     = Inr (Array2d
        [[JNum 1700006400, JStr ''35010.0'', JStr ''35040.0'', JStr ''35000.0'',
          JStr ''35030.0'', JStr ''7.25'', JStr ''253967.5'', JNum 0, JNum 0, JNum 0]])"
    using inst [THEN conjunct2, THEN conjunct2, rule_format, of 1700002800] fixture
    by (simp add: okx_example_strict_executor_def
          okx_parse_rest_candles_def okx_example_newest_response_def okx_rest_row_def
          whole_seconds_def decimal_value_def digit_value_def float_literal_defs)
  show ?thesis
    using start p0 p1 f0 f1 by simp
qed

section \<open>Intervals without an entry in the mapping table\<close>

text \<open>
  C7, as the claim states it, has the payload and the request fail with UnsupportedInterval
  for an interval without an entry in the table, and has the token of a mapped interval in
  the request parameters of every fetch. Both adapters read the exchange's token with
  \<^verbatim>\<open>CONSTANTS.INTERVALS[self.interval]\<close>, a subscript on a dict. For an interval with no
  entry the subscript raises Python's \<open>KeyError\<close> on the interval; neither adapter
  catches it or raises another exception in its place, so the failure that leaves
  \<^verbatim>\<open>ws_subscription_payload\<close> and \<^verbatim>\<open>fetch_candles\<close> is \<open>KeyError\<close>, not
  UnsupportedInterval. For a mapped interval OKX builds request parameters only when an
  \<^verbatim>\<open>end_time\<close> is given: without one, \<^verbatim>\<open>end_time * 1000\<close> raises \<open>TypeError\<close> after
  \<^verbatim>\<open>bar\<close> has been set and before anything is sent.
\<close>

theorem unmapped_interval_counterexample:
  "hyperliquid_ws_subscription_payload hyperliquid_example_constants
       (hyperliquid_example_feed\<lparr>interval := ''7m''\<rparr>)
     = Inl (KeyError (JStr ''7m''))
   \<and> hyperliquid_ws_subscription_payload hyperliquid_example_constants
       (hyperliquid_example_feed\<lparr>interval := ''7m''\<rparr>)
     \<noteq> Inl UnsupportedInterval
   \<and> hyperliquid_fetch_candles hyperliquid_example_constants
       hyperliquid_example_strict_executor
       (hyperliquid_example_feed\<lparr>interval := ''7m''\<rparr>) None (Some 1700000160)
     = Inl (KeyError (JStr ''7m''))
   \<and> okx_ws_subscription_payload okx_example_constants (okx_example_feed\<lparr>interval := ''7m''\<rparr>)
     = Inl (KeyError (JStr ''7m''))
   \<and> okx_ws_subscription_payload okx_example_constants (okx_example_feed\<lparr>interval := ''7m''\<rparr>)
     \<noteq> Inl UnsupportedInterval
   \<and> okx_fetch_candles okx_example_constants okx_example_strict_executor
       (okx_example_feed\<lparr>interval := ''7m''\<rparr>) None (Some 1700010000)
     = Inl (KeyError (JStr ''7m''))
   \<and> okx_fetch_params okx_example_constants okx_example_feed None None = Inl TypeError"
  by (simp add: hyperliquid_ws_subscription_payload_def hyperliquid_fetch_candles_def
        hyperliquid_fetch_request_def okx_ws_subscription_payload_def okx_fetch_candles_def
        okx_fetch_params_def intervals_getitem_def hyperliquid_example_constants_def
        okx_example_constants_def okx_example_feed_def Let_def)

text \<open>
  C7, amended. For an interval with no entry in the table, \<^verbatim>\<open>ws_subscription_payload\<close>,
  the request and the whole \<^verbatim>\<open>fetch_candles\<close> of both adapters fail with \<open>KeyError\<close>
  on the interval, whatever the bounds and the executor. For a mapped interval the token
  of the table is the \<^verbatim>\<open>interval\<close> of the Hyperliquid subscription and of the body of
  the request that \<^verbatim>\<open>fetch_candles\<close> hands to the executor; for OKX it is the suffix of
  the channel name and, whenever an \<^verbatim>\<open>end_time\<close> is given, the \<^verbatim>\<open>bar\<close> of the
  parameters that \<^verbatim>\<open>fetch_candles\<close> hands to the executor. Without an \<^verbatim>\<open>end_time\<close>
  OKX fails with \<open>TypeError\<close> and builds no parameters.
\<close>

theorem unmapped_interval_fails:
  "(map_of (INTERVALS K) (interval self) = None \<longrightarrow>
      hyperliquid_ws_subscription_payload K self = Inl (KeyError (JStr (interval self)))
      \<and> hyperliquid_fetch_request K self start_time end_time
          = Inl (KeyError (JStr (interval self)))
      \<and> hyperliquid_fetch_candles K ex self start_time end_time
          = Inl (KeyError (JStr (interval self))))
   \<and> (map_of (INTERVALS K') (interval self') = None \<longrightarrow>
      okx_ws_subscription_payload K' self' = Inl (KeyError (JStr (interval self')))
      \<and> okx_fetch_params K' self' start_time end_time = Inl (KeyError (JStr (interval self')))
      \<and> okx_fetch_candles K' ex self' start_time end_time
          = Inl (KeyError (JStr (interval self'))))
   \<and> (map_of (INTERVALS K) (interval self) = Some tok \<longrightarrow>
      hyperliquid_ws_subscription_payload K self
        = Inr (JObj [(''method'', JStr ''subscribe''),
                     (''subscription'',
                        JObj [(''type'', JStr ''candle''),
                              (''coin'', JStr (base_asset self)),
                              (''interval'', JStr tok)])])
      \<and> (\<exists>reqs. hyperliquid_fetch_request K self start_time end_time =
             Inr \<lparr>url = REST_URL K, throttler_limit_id = REST_URL K, params = None,
                  data = Some (JObj [(''type'', JStr ''candleSnapshot''), (''req'', JObj reqs)]),
                  headers = Some [(''Content-Type'', ''application/json'')],
                  http_method = Some POST\<rparr>
           \<and> map_of reqs ''interval'' = Some (JStr tok)
           \<and> hyperliquid_fetch_candles K ex self start_time end_time
               = ebind (ex \<lparr>url = REST_URL K, throttler_limit_id = REST_URL K, params = None,
                           data = Some (JObj [(''type'', JStr ''candleSnapshot''),
                                              (''req'', JObj reqs)]),
                           headers = Some [(''Content-Type'', ''application/json'')],
                           http_method = Some POST\<rparr>)
                   (\<lambda>candles. ebind (hyperliquid_parse_rest_candles candles end_time)
                      np_array_astype_float)))
   \<and> (map_of (INTERVALS K') (interval self') = Some tok' \<longrightarrow>
      okx_ws_subscription_payload K' self'
        = Inr (JObj [(''op'', JStr ''subscribe''),
                     (''args'',
                        JArr [JObj [(''channel'', JStr (''candle'' @ tok')),
                                    (''instId'', JStr (ex_trading_pair self'))]])])
      \<and> okx_fetch_params K' self' start_time None = Inl TypeError
      \<and> (\<forall>e. \<exists>ps. okx_fetch_params K' self' start_time (Some e) = Inr ps
            \<and> map_of ps ''bar'' = Some (JStr tok')
            \<and> okx_fetch_candles K' ex self' start_time (Some e)
                = ebind (ex \<lparr>url = REST_URL K' @ CANDLES_ENDPOINT K',
                            throttler_limit_id = CANDLES_ENDPOINT K',
                            params = Some ps, data = None, headers = None,
                            http_method = None\<rparr>)
                    (\<lambda>candles. ebind (okx_parse_rest_candles candles)
                       (\<lambda>arr. np_array_astype_float (Some arr)))))"
proof -
  have hl_none: "hyperliquid_ws_subscription_payload K self = Inl (KeyError (JStr (interval self)))
      \<and> hyperliquid_fetch_request K self start_time end_time
          = Inl (KeyError (JStr (interval self)))
      \<and> hyperliquid_fetch_candles K ex self start_time end_time
          = Inl (KeyError (JStr (interval self)))"
    if "map_of (INTERVALS K) (interval self) = None"
    using intervals_getitem_None [OF that]
    by (simp add: hyperliquid_ws_subscription_payload_def hyperliquid_fetch_request_def
          hyperliquid_fetch_candles_def Let_def)
  have okx_none: "okx_ws_subscription_payload K' self' = Inl (KeyError (JStr (interval self')))
      \<and> okx_fetch_params K' self' start_time end_time = Inl (KeyError (JStr (interval self')))
      \<and> okx_fetch_candles K' ex self' start_time end_time
          = Inl (KeyError (JStr (interval self')))"
    if "map_of (INTERVALS K') (interval self') = None"
    using intervals_getitem_None [OF that]
    by (simp add: okx_ws_subscription_payload_def okx_fetch_params_def okx_fetch_candles_def)
  have hl_some: "hyperliquid_ws_subscription_payload K self
        = Inr (JObj [(''method'', JStr ''subscribe''),
                     (''subscription'',
                        JObj [(''type'', JStr ''candle''),
                              (''coin'', JStr (base_asset self)),
                              (''interval'', JStr tok)])])"
    if "map_of (INTERVALS K) (interval self) = Some tok"
    using intervals_getitem_Some [OF that]
    by (simp add: hyperliquid_ws_subscription_payload_def)
  have hl_req: "\<exists>reqs. hyperliquid_fetch_request K self start_time end_time =
             Inr \<lparr>url = REST_URL K, throttler_limit_id = REST_URL K, params = None,
                  data = Some (JObj [(''type'', JStr ''candleSnapshot''), (''req'', JObj reqs)]),
                  headers = Some [(''Content-Type'', ''application/json'')],
                  http_method = Some POST\<rparr>
           \<and> map_of reqs ''interval'' = Some (JStr tok)
           \<and> hyperliquid_fetch_candles K ex self start_time end_time
               = ebind (ex \<lparr>url = REST_URL K, throttler_limit_id = REST_URL K, params = None,
                           data = Some (JObj [(''type'', JStr ''candleSnapshot''),
                                              (''req'', JObj reqs)]),
                           headers = Some [(''Content-Type'', ''application/json'')],
                           http_method = Some POST\<rparr>)
                   (\<lambda>candles. ebind (hyperliquid_parse_rest_candles candles end_time)
                      np_array_astype_float)"
    if mapped: "map_of (INTERVALS K) (interval self) = Some tok"
  proof -
    obtain reqs where
      request: "hyperliquid_fetch_request K self start_time end_time =
             Inr \<lparr>url = REST_URL K, throttler_limit_id = REST_URL K, params = None,
                  data = Some (JObj [(''type'', JStr ''candleSnapshot''), (''req'', JObj reqs)]),
                  headers = Some [(''Content-Type'', ''application/json'')],
                  http_method = Some POST\<rparr>"
      and token: "map_of reqs ''interval'' = Some (JStr tok)"
      using hyperliquid_fetch_request_mapped [OF mapped, of start_time end_time] by blast
    show ?thesis
      using request token hyperliquid_fetch_candles_sends [OF request, of ex] by blast
  qed
  have okx_some: "okx_ws_subscription_payload K' self'
        = Inr (JObj [(''op'', JStr ''subscribe''),
                     (''args'',
                        JArr [JObj [(''channel'', JStr (''candle'' @ tok')),
                                    (''instId'', JStr (ex_trading_pair self'))]])])"
    if "map_of (INTERVALS K') (interval self') = Some tok'"
    using intervals_getitem_Some [OF that]
    by (simp add: okx_ws_subscription_payload_def)
  have okx_req: "\<exists>ps. okx_fetch_params K' self' start_time (Some e) = Inr ps
            \<and> map_of ps ''bar'' = Some (JStr tok')
            \<and> okx_fetch_candles K' ex self' start_time (Some e)
                = ebind (ex \<lparr>url = REST_URL K' @ CANDLES_ENDPOINT K',
                            throttler_limit_id = CANDLES_ENDPOINT K',
                            params = Some ps, data = None, headers = None,
                            http_method = None\<rparr>)
                    (\<lambda>candles. ebind (okx_parse_rest_candles candles)
                       (\<lambda>arr. np_array_astype_float (Some arr)))"
    if mapped: "map_of (INTERVALS K') (interval self') = Some tok'" for e
  proof -
    consider "start_time = None" | "start_time = Some 0"
      | s where "start_time = Some s" "s \<noteq> 0"
      by (cases start_time) auto
    then obtain ps where
      built: "okx_fetch_params K' self' start_time (Some e) = Inr ps"
      and token: "map_of ps ''bar'' = Some (JStr tok')"
    proof cases
      case 1
      show ?thesis
        using that [OF okx_fetch_params_mapped(1) [OF mapped, of e, folded 1]] by simp
    next
      case 2
      show ?thesis
        using that [OF okx_fetch_params_mapped(2) [OF mapped, of e, folded 2]] by simp
    next
      case 3
      show ?thesis
        using that [OF okx_fetch_params_mapped(3) [OF mapped 3(2), of e, folded 3(1)]]
        by simp
    qed
    show ?thesis
      using built token okx_fetch_candles_sends [OF built, of ex] by blast
  qed
  show ?thesis
    using hl_none okx_none hl_some hl_req okx_some okx_req
      okx_fetch_params_no_end_time [of K' self' tok' start_time]
    by blast
qed

theorem unmapped_interval_fails_witness:
  "hyperliquid_ws_subscription_payload hyperliquid_example_constants
       (hyperliquid_example_feed\<lparr>interval := ''7m''\<rparr>)
     = Inl (KeyError (JStr ''7m''))
   \<and> hyperliquid_fetch_candles hyperliquid_example_constants
       hyperliquid_example_strict_executor
       (hyperliquid_example_feed\<lparr>interval := ''7m''\<rparr>) None (Some 1700000160)
     = Inl (KeyError (JStr ''7m''))
   \<and> okx_ws_subscription_payload okx_example_constants (okx_example_feed\<lparr>interval := ''7m''\<rparr>)
     = Inl (KeyError (JStr ''7m''))
   \<and> okx_fetch_candles okx_example_constants okx_example_strict_executor
       (okx_example_feed\<lparr>interval := ''7m''\<rparr>) None (Some 1700010000)
     = Inl (KeyError (JStr ''7m''))
   \<and> hyperliquid_ws_subscription_payload hyperliquid_example_constants hyperliquid_example_feed
     = Inr (JObj [(''method'', JStr ''subscribe''),
                  (''subscription'',
                     JObj [(''type'', JStr ''candle''), (''coin'', JStr ''BTC''),
                           (''interval'', JStr ''1m'')])])
   \<and> hyperliquid_fetch_request hyperliquid_example_constants hyperliquid_example_feed
       None (Some 1700000160)
     = Inr \<lparr>url = ''https://api.hyperliquid.xyz/info'',
            throttler_limit_id = ''https://api.hyperliquid.xyz/info'', params = None,
            data = Some (JObj [(''type'', JStr ''candleSnapshot''),
                               (''req'', JObj [(''interval'', JStr ''1m''),
                                               (''coin'', JStr ''BTC''),
                                               (''startTime'', JNum 1699970160000),
                                               (''endTime'', JNum 1700000160000)])]),
            headers = Some [(''Content-Type'', ''application/json'')],
            http_method = Some POST\<rparr>
   \<and> hyperliquid_fetch_candles hyperliquid_example_constants
       hyperliquid_example_strict_executor hyperliquid_example_feed None (Some 1700000160)
     = Inr (Array2d
        [[JNum 1700000040, JStr ''35000.0'', JStr ''35020.0'', JStr ''34990.0'',
          JStr ''35010.0'', JStr ''12.5'', JNum 0, JNum 42, JNum 0, JNum 0],
         [JNum 1700000100, JStr ''35010.0'', JStr ''35040.0'', JStr ''35000.0'',
          JStr ''35030.0'', JStr ''7.25'', JNum 0, JNum 17, JNum 0, JNum 0]])
   \<and> okx_ws_subscription_payload okx_example_constants okx_example_feed
     = Inr (JObj [(''op'', JStr ''subscribe''),
                  (''args'',
                     JArr [JObj [(''channel'', JStr ''candle1H''),
                                 (''instId'', JStr ''BTC-USDT'')]])])
   \<and> okx_fetch_params okx_example_constants okx_example_feed None None = Inl TypeError
   \<and> okx_fetch_params okx_example_constants okx_example_feed None (Some 1700010000)
     = Inr [(''instId'', JStr ''BTC-USDT''), (''bar'', JStr ''1H''),
            (''after'', JNum 1700010000000)]
   \<and> map_of [(''instId'', JStr ''BTC-USDT''), (''bar'', JStr ''1H''),
             (''after'', JNum 1700010000000)] ''bar'' = Some (JStr ''1H'')
   \<and> okx_fetch_candles okx_example_constants okx_example_strict_executor okx_example_feed
       None (Some 1700010000)
     = Inr (Array2d
        [[JNum 1700002800, JStr ''35000.0'', JStr ''35020.0'', JStr ''34990.0'',
          JStr ''35010.0'', JStr ''12.5'', JStr ''437625.0'', JNum 0, JNum 0, JNum 0],
         [JNum 1700006400, JStr ''35010.0'', JStr ''35040.0'', JStr ''35000.0'',
          JStr ''35030.0'', JStr ''7.25'', JStr ''253967.5'', JNum 0, JNum 0, JNum 0]])"
proof -
  note unmapped =
    unmapped_interval_fails
      [where K = hyperliquid_example_constants
         and self = "hyperliquid_example_feed\<lparr>interval := ''7m''\<rparr>"
         and K' = okx_example_constants
         and self' = "okx_example_feed\<lparr>interval := ''7m''\<rparr>"
         and start_time = None and end_time = "Some 1700000160"
         and ex = hyperliquid_example_strict_executor]
  note unmapped' =
    unmapped_interval_fails
      [where K = hyperliquid_example_constants
         and self = "hyperliquid_example_feed\<lparr>interval := ''7m''\<rparr>"
         and K' = okx_example_constants
         and self' = "okx_example_feed\<lparr>interval := ''7m''\<rparr>"
         and start_time = None and end_time = "Some 1700010000"
         and ex = okx_example_strict_executor]
  note mapped =
    unmapped_interval_fails
      [where K = hyperliquid_example_constants and self = hyperliquid_example_feed
         and K' = okx_example_constants and self' = okx_example_feed
         and start_time = None and end_time = "Some 1700000160"
         and ex = hyperliquid_example_strict_executor
         and tok = "''1m''" and tok' = "''1H''"]
  note mapped' =
    unmapped_interval_fails
      [where K = hyperliquid_example_constants and self = hyperliquid_example_feed
         and K' = okx_example_constants and self' = okx_example_feed
         and start_time = None and end_time = "Some 1700000160"
         and ex = okx_example_strict_executor
         and tok = "''1m''" and tok' = "''1H''"]
  have hl_unmapped:
    "map_of (INTERVALS hyperliquid_example_constants)
       (interval (hyperliquid_example_feed\<lparr>interval := ''7m''\<rparr>)) = None"
    by (simp add: hyperliquid_example_constants_def)
  have okx_unmapped:
    "map_of (INTERVALS okx_example_constants)
       (interval (okx_example_feed\<lparr>interval := ''7m''\<rparr>)) = None"
    by (simp add: okx_example_constants_def)
  have hl_mapped:
    "map_of (INTERVALS hyperliquid_example_constants) (interval hyperliquid_example_feed)
       = Some ''1m''"
    by (simp add: hyperliquid_example_constants_def hyperliquid_example_feed_def)
  have okx_mapped:
    "map_of (INTERVALS okx_example_constants) (interval okx_example_feed) = Some ''1H''"
    by (simp add: okx_example_constants_def okx_example_feed_def)
  have fixture: "base_asset hyperliquid_example_feed = ''BTC''"
      "ex_trading_pair okx_example_feed = ''BTC-USDT''"
      "REST_URL hyperliquid_example_constants = ''https://api.hyperliquid.xyz/info''"
      "REST_URL okx_example_constants @ CANDLES_ENDPOINT okx_example_constants
         = ''https://www.okx.com/api/v5/market/history-candles''"
      "CANDLES_ENDPOINT okx_example_constants = ''/api/v5/market/history-candles''"
    by (simp_all add: hyperliquid_example_constants_def okx_example_constants_def
          hyperliquid_example_feed_def okx_example_feed_def)
  have request:
    "hyperliquid_fetch_request hyperliquid_example_constants hyperliquid_example_feed
       None (Some 1700000160)
     = Inr \<lparr>url = ''https://api.hyperliquid.xyz/info'',
            throttler_limit_id = ''https://api.hyperliquid.xyz/info'', params = None,
            data = Some (JObj [(''type'', JStr ''candleSnapshot''),
                               (''req'', JObj [(''interval'', JStr ''1m''),
                                               (''coin'', JStr ''BTC''),
                                               (''startTime'', JNum 1699970160000),
                                               (''endTime'', JNum 1700000160000)])]),
            headers = Some [(''Content-Type'', ''application/json'')],
            http_method = Some POST\<rparr>"
    by (simp add: hyperliquid_fetch_request_def intervals_getitem_def
          hyperliquid_example_constants_def hyperliquid_example_feed_def)
  have params:
    "okx_fetch_params okx_example_constants okx_example_feed None (Some 1700010000)
     = Inr [(''instId'', JStr ''BTC-USDT''), (''bar'', JStr ''1H''),
            (''after'', JNum 1700010000000)]"
    by (simp add: okx_fetch_params_def intervals_getitem_def okx_example_constants_def
          okx_example_feed_def)
  have parsed:
    "hyperliquid_parse_rest_candles hyperliquid_example_response (Some 1700000160)
       = Inr (Some [[JNum 1700000040, JStr ''35000.0'', JStr ''35020.0'', JStr ''34990.0'',
                     JStr ''35010.0'', JStr ''12.5'', JNum 0, JNum 42, JNum 0, JNum 0],
                    [JNum 1700000100, JStr ''35010.0'', JStr ''35040.0'', JStr ''35000.0'',
                     JStr ''35030.0'', JStr ''7.25'', JNum 0, JNum 17, JNum 0, JNum 0]])"
    by (simp add: hyperliquid_parse_rest_candles_def hyperliquid_example_response_def
          hyperliquid_row_condition_def hyperliquid_rest_row_def whole_seconds_def)
  have hl_fetched:
    "hyperliquid_fetch_candles hyperliquid_example_constants
       hyperliquid_example_strict_executor hyperliquid_example_feed None (Some 1700000160)
     = Inr (Array2d
        [[JNum 1700000040, JStr ''35000.0'', JStr ''35020.0'', JStr ''34990.0'',
          JStr ''35010.0'', JStr ''12.5'', JNum 0, JNum 42, JNum 0, JNum 0],
         [JNum 1700000100, JStr ''35010.0'', JStr ''35040.0'', JStr ''35000.0'',
          JStr ''35030.0'', JStr ''7.25'', JNum 0, JNum 17, JNum 0, JNum 0]])"
  proof -
    from mapped hl_mapped obtain reqs where
      built: "hyperliquid_fetch_request hyperliquid_example_constants hyperliquid_example_feed
                None (Some 1700000160) =
             Inr \<lparr>url = REST_URL hyperliquid_example_constants,
                  throttler_limit_id = REST_URL hyperliquid_example_constants, params = None,
                  data = Some (JObj [(''type'', JStr ''candleSnapshot''), (''req'', JObj reqs)]),
                  headers = Some [(''Content-Type'', ''application/json'')],
                  http_method = Some POST\<rparr>"
      and sent: "hyperliquid_fetch_candles hyperliquid_example_constants
                   hyperliquid_example_strict_executor hyperliquid_example_feed None
                   (Some 1700000160)
               = ebind (hyperliquid_example_strict_executor
                          \<lparr>url = REST_URL hyperliquid_example_constants,
                           throttler_limit_id = REST_URL hyperliquid_example_constants,
                           params = None,
                           data = Some (JObj [(''type'', JStr ''candleSnapshot''),
                                              (''req'', JObj reqs)]),
                           headers = Some [(''Content-Type'', ''application/json'')],
                           http_method = Some POST\<rparr>)
                   (\<lambda>candles. ebind (hyperliquid_parse_rest_candles candles (Some 1700000160))
                      np_array_astype_float)"
      by blast
    have "reqs = [(''interval'', JStr ''1m''), (''coin'', JStr ''BTC''),
                  (''startTime'', JNum 1699970160000), (''endTime'', JNum 1700000160000)]"
      using built request by simp
    then show ?thesis
      using sent fixture
      by (simp add: hyperliquid_example_strict_executor_def parsed float_literal_defs)
  qed
  have okx_fetched:
    "okx_fetch_candles okx_example_constants okx_example_strict_executor okx_example_feed
       None (Some 1700010000)
     = Inr (Array2d
        [[JNum 1700002800, JStr ''35000.0'', JStr ''35020.0'', JStr ''34990.0'',
          JStr ''35010.0'', JStr ''12.5'', JStr ''437625.0'', JNum 0, JNum 0, JNum 0],
         [JNum 1700006400, JStr ''35010.0'', JStr ''35040.0'', JStr ''35000.0'',
          JStr ''35030.0'', JStr ''7.25'', JStr ''253967.5'', JNum 0, JNum 0, JNum 0]])"
  proof -
    from mapped' okx_mapped obtain ps where
      built: "okx_fetch_params okx_example_constants okx_example_feed None (Some 1700010000)
                = Inr ps"
      and sent: "okx_fetch_candles okx_example_constants okx_example_strict_executor
                   okx_example_feed None (Some 1700010000)
                = ebind (okx_example_strict_executor
                           \<lparr>url = REST_URL okx_example_constants
                                    @ CANDLES_ENDPOINT okx_example_constants,
                            throttler_limit_id = CANDLES_ENDPOINT okx_example_constants,
                            params = Some ps, data = None, headers = None,
                            http_method = None\<rparr>)
                    (\<lambda>candles. ebind (okx_parse_rest_candles candles)
                       (\<lambda>arr. np_array_astype_float (Some arr)))"
      by blast
    have "ps = [(''instId'', JStr ''BTC-USDT''), (''bar'', JStr ''1H''),
                (''after'', JNum 1700010000000)]"
      using built params by simp
    then show ?thesis
      using sent fixture
      by (simp add: okx_example_strict_executor_def
            okx_parse_rest_candles_def okx_example_response_def okx_rest_row_def
            whole_seconds_def decimal_value_def digit_value_def float_literal_defs)
  qed
  have failures:
    "hyperliquid_ws_subscription_payload hyperliquid_example_constants
       (hyperliquid_example_feed\<lparr>interval := ''7m''\<rparr>)
     = Inl (KeyError (JStr ''7m''))
   \<and> hyperliquid_fetch_candles hyperliquid_example_constants
       hyperliquid_example_strict_executor
       (hyperliquid_example_feed\<lparr>interval := ''7m''\<rparr>) None (Some 1700000160)
     = Inl (KeyError (JStr ''7m''))"
    using unmapped hl_unmapped by simp
  have failures':
    "okx_ws_subscription_payload okx_example_constants (okx_example_feed\<lparr>interval := ''7m''\<rparr>)
     = Inl (KeyError (JStr ''7m''))
   \<and> okx_fetch_candles okx_example_constants okx_example_strict_executor
       (okx_example_feed\<lparr>interval := ''7m''\<rparr>) None (Some 1700010000)
     = Inl (KeyError (JStr ''7m''))"
    using unmapped' okx_unmapped by simp
  have payloads:
    "hyperliquid_ws_subscription_payload hyperliquid_example_constants hyperliquid_example_feed
     = Inr (JObj [(''method'', JStr ''subscribe''),
                  (''subscription'',
                     JObj [(''type'', JStr ''candle''), (''coin'', JStr ''BTC''),
                           (''interval'', JStr ''1m'')])])
   \<and> okx_ws_subscription_payload okx_example_constants okx_example_feed
     = Inr (JObj [(''op'', JStr ''subscribe''),
                  (''args'',
                     JArr [JObj [(''channel'', JStr ''candle1H''),
                                 (''instId'', JStr ''BTC-USDT'')]])])
   \<and> okx_fetch_params okx_example_constants okx_example_feed None None = Inl TypeError"
    using mapped hl_mapped okx_mapped fixture by simp
  show ?thesis
    using failures failures' payloads request hl_fetched params okx_fetched by simp
qed

section \<open>The end bound of a historical fetch\<close>




section \<open>The ten fields of a candle\<close>

text \<open>
  C5. Every row of a historical parse is the list of ten cells
  [timestamp, open, high, low, close, volume, quote volume, trade count, taker buy base
  volume, taker buy quote volume] in exactly that order, taken from one row of the
  response, with 0.0 for what the exchange does not supply: quote volume and the two taker
  volumes for Hyperliquid, trade count and the two taker volumes for OKX. A stream parse
  returns the candle as a dict with the ten keys \<^verbatim>\<open>timestamp\<close>, \<^verbatim>\<open>open\<close>, \<^verbatim>\<open>high\<close>,
  \<^verbatim>\<open>low\<close>, \<^verbatim>\<open>close\<close>, \<^verbatim>\<open>volume\<close>, \<^verbatim>\<open>quote_asset_volume\<close>, \<^verbatim>\<open>n_trades\<close>,
  \<^verbatim>\<open>taker_buy_base_volume\<close>, \<^verbatim>\<open>taker_buy_quote_volume\<close> and no other. A dict is read by
  key: read under the ten field names in the fixed order, the dict of either adapter gives
  the fixed row of the frame's candle, with 0.0 for the same fields as above. The dict of
  OKX lists its items in the fixed order as well; Hyperliquid assigns \<^verbatim>\<open>low\<close> before
  \<^verbatim>\<open>high\<close>, which no reading by key can see.
\<close>

theorem candle_fields:
  "(\<forall>rows. hyperliquid_parse_rest_candles candles end_time = Inr (Some rows) \<longrightarrow>
      (\<forall>r \<in> set rows. \<exists>wire row ts vo vh vl vc vv vn.
          py_iter candles = Inr wire \<and> row \<in> set wire
          \<and> getitem row ''o'' = Inr vo \<and> getitem row ''h'' = Inr vh
          \<and> getitem row ''l'' = Inr vl \<and> getitem row ''c'' = Inr vc
          \<and> getitem row ''v'' = Inr vv \<and> getitem row ''n'' = Inr vn
          \<and> r = [JNum (of_int ts), vo, vh, vl, vc, vv, JNum 0, vn, JNum 0, JNum 0]))
   \<and> (\<forall>rows. okx_parse_rest_candles candles' = Inr rows \<longrightarrow>
      (\<forall>r \<in> set rows. \<exists>d wire row ts r1 r2 r3 r4 r5 r6.
          getitem candles' ''data'' = Inr d \<and> py_iter d = Inr wire \<and> row \<in> set wire
          \<and> getindex row 1 = Inr r1 \<and> getindex row 2 = Inr r2
          \<and> getindex row 3 = Inr r3 \<and> getindex row 4 = Inr r4
          \<and> getindex row 5 = Inr r5 \<and> getindex row 6 = Inr r6
          \<and> r = [JNum (of_int ts), r1, r2, r3, r4, r5, r6, JNum 0, JNum 0, JNum 0]))
   \<and> (\<forall>d. hyperliquid_parse_websocket_message msg = Inr (Some d) \<longrightarrow>
      (\<exists>candle ts vo vh vl vc vv vn.
          getitem msg ''data'' = Inr candle
          \<and> getitem candle ''o'' = Inr vo \<and> getitem candle ''h'' = Inr vh
          \<and> getitem candle ''l'' = Inr vl \<and> getitem candle ''c'' = Inr vc
          \<and> getitem candle ''v'' = Inr vv \<and> getitem candle ''n'' = Inr vn
          \<and> map (map_of d)
               [''timestamp'', ''open'', ''high'', ''low'', ''close'', ''volume'',
                ''quote_asset_volume'', ''n_trades'', ''taker_buy_base_volume'',
                ''taker_buy_quote_volume'']
              = map Some [JNum (of_int ts), vo, vh, vl, vc, vv, JNum 0, vn, JNum 0, JNum 0]
          \<and> length d = 10))
   \<and> (\<forall>d. okx_parse_websocket_message msg' = Inr (Some d) \<longrightarrow>
      (\<exists>dat candle ts c1 c2 c3 c4 c5 c6.
          getitem msg' ''data'' = Inr dat \<and> getindex dat 0 = Inr candle
          \<and> getindex candle 1 = Inr c1 \<and> getindex candle 2 = Inr c2
          \<and> getindex candle 3 = Inr c3 \<and> getindex candle 4 = Inr c4
          \<and> getindex candle 5 = Inr c5 \<and> getindex candle 6 = Inr c6
          \<and> map (map_of d)
               [''timestamp'', ''open'', ''high'', ''low'', ''close'', ''volume'',
                ''quote_asset_volume'', ''n_trades'', ''taker_buy_base_volume'',
                ''taker_buy_quote_volume'']
              = map Some [JNum (of_int ts), c1, c2, c3, c4, c5, c6, JNum 0, JNum 0, JNum 0]
          \<and> map fst d
              = [''timestamp'', ''open'', ''high'', ''low'', ''close'', ''volume'',
                 ''quote_asset_volume'', ''n_trades'', ''taker_buy_base_volume'',
                 ''taker_buy_quote_volume'']
          \<and> map snd d
              = [JNum (of_int ts), c1, c2, c3, c4, c5, c6, JNum 0, JNum 0, JNum 0]
          \<and> length d = 10))"
proof -
  have hl_rest: "\<exists>wire row ts vo vh vl vc vv vn.
          py_iter candles = Inr wire \<and> row \<in> set wire
          \<and> getitem row ''o'' = Inr vo \<and> getitem row ''h'' = Inr vh
          \<and> getitem row ''l'' = Inr vl \<and> getitem row ''c'' = Inr vc
          \<and> getitem row ''v'' = Inr vv \<and> getitem row ''n'' = Inr vn
          \<and> r = [JNum (of_int ts), vo, vh, vl, vc, vv, JNum 0, vn, JNum 0, JNum 0]"
    if "hyperliquid_parse_rest_candles candles end_time = Inr (Some rows)" "r \<in> set rows"
    for rows r
    using hyperliquid_returned_row [OF that] by blast
  have okx_rest: "\<exists>d wire row ts r1 r2 r3 r4 r5 r6.
          getitem candles' ''data'' = Inr d \<and> py_iter d = Inr wire \<and> row \<in> set wire
          \<and> getindex row 1 = Inr r1 \<and> getindex row 2 = Inr r2
          \<and> getindex row 3 = Inr r3 \<and> getindex row 4 = Inr r4
          \<and> getindex row 5 = Inr r5 \<and> getindex row 6 = Inr r6
          \<and> r = [JNum (of_int ts), r1, r2, r3, r4, r5, r6, JNum 0, JNum 0, JNum 0]"
    if "okx_parse_rest_candles candles' = Inr rows" "r \<in> set rows" for rows r
    using okx_returned_row [OF that] by blast
  have hl_ws: "\<exists>candle ts vo vh vl vc vv vn.
          getitem msg ''data'' = Inr candle
          \<and> getitem candle ''o'' = Inr vo \<and> getitem candle ''h'' = Inr vh
          \<and> getitem candle ''l'' = Inr vl \<and> getitem candle ''c'' = Inr vc
          \<and> getitem candle ''v'' = Inr vv \<and> getitem candle ''n'' = Inr vn
          \<and> map (map_of d)
               [''timestamp'', ''open'', ''high'', ''low'', ''close'', ''volume'',
                ''quote_asset_volume'', ''n_trades'', ''taker_buy_base_volume'',
                ''taker_buy_quote_volume'']
              = map Some [JNum (of_int ts), vo, vh, vl, vc, vv, JNum 0, vn, JNum 0, JNum 0]
          \<and> length d = 10"
    if "hyperliquid_parse_websocket_message msg = Inr (Some d)" for d
    using hyperliquid_parse_websocket_message_Some [OF that] by auto
  have okx_ws: "\<exists>dat candle ts c1 c2 c3 c4 c5 c6.
          getitem msg' ''data'' = Inr dat \<and> getindex dat 0 = Inr candle
          \<and> getindex candle 1 = Inr c1 \<and> getindex candle 2 = Inr c2
          \<and> getindex candle 3 = Inr c3 \<and> getindex candle 4 = Inr c4
          \<and> getindex candle 5 = Inr c5 \<and> getindex candle 6 = Inr c6
          \<and> map (map_of d)
               [''timestamp'', ''open'', ''high'', ''low'', ''close'', ''volume'',
                ''quote_asset_volume'', ''n_trades'', ''taker_buy_base_volume'',
                ''taker_buy_quote_volume'']
              = map Some [JNum (of_int ts), c1, c2, c3, c4, c5, c6, JNum 0, JNum 0, JNum 0]
          \<and> map fst d
              = [''timestamp'', ''open'', ''high'', ''low'', ''close'', ''volume'',
                 ''quote_asset_volume'', ''n_trades'', ''taker_buy_base_volume'',
                 ''taker_buy_quote_volume'']
          \<and> map snd d
              = [JNum (of_int ts), c1, c2, c3, c4, c5, c6, JNum 0, JNum 0, JNum 0]
          \<and> length d = 10"
    if "okx_parse_websocket_message msg' = Inr (Some d)" for d
    using okx_parse_websocket_message_Some [OF that] by auto
  show ?thesis
    using hl_rest okx_rest hl_ws okx_ws by blast
qed

theorem candle_fields_witness:
  "hyperliquid_parse_rest_candles hyperliquid_example_response (Some 1700000100)
     = Inr (Some [[JNum 1700000040, JStr ''35000.0'', JStr ''35020.0'', JStr ''34990.0'',
                   JStr ''35010.0'', JStr ''12.5'', JNum 0, JNum 42, JNum 0, JNum 0]])
   \<and> (\<exists>wire row ts vo vh vl vc vv vn.
          py_iter hyperliquid_example_response = Inr wire \<and> row \<in> set wire
          \<and> getitem row ''o'' = Inr vo \<and> getitem row ''h'' = Inr vh
          \<and> getitem row ''l'' = Inr vl \<and> getitem row ''c'' = Inr vc
          \<and> getitem row ''v'' = Inr vv \<and> getitem row ''n'' = Inr vn
          \<and> [JNum 1700000040, JStr ''35000.0'', JStr ''35020.0'', JStr ''34990.0'',
              JStr ''35010.0'', JStr ''12.5'', JNum 0, JNum 42, JNum 0, JNum 0]
            = [JNum (of_int ts), vo, vh, vl, vc, vv, JNum 0, vn, JNum 0, JNum 0])
   \<and> okx_parse_rest_candles okx_example_response
     = Inr [[JNum 1700002800, JStr ''35000.0'', JStr ''35020.0'', JStr ''34990.0'',
             JStr ''35010.0'', JStr ''12.5'', JStr ''437625.0'', JNum 0, JNum 0, JNum 0],
            [JNum 1700006400, JStr ''35010.0'', JStr ''35040.0'', JStr ''35000.0'',
             JStr ''35030.0'', JStr ''7.25'', JStr ''253967.5'', JNum 0, JNum 0, JNum 0]]
   \<and> (\<exists>d wire row ts r1 r2 r3 r4 r5 r6.
          getitem okx_example_response ''data'' = Inr d \<and> py_iter d = Inr wire
          \<and> row \<in> set wire
          \<and> getindex row 1 = Inr r1 \<and> getindex row 2 = Inr r2
          \<and> getindex row 3 = Inr r3 \<and> getindex row 4 = Inr r4
          \<and> getindex row 5 = Inr r5 \<and> getindex row 6 = Inr r6
          \<and> [JNum 1700006400, JStr ''35010.0'', JStr ''35040.0'', JStr ''35000.0'',
              JStr ''35030.0'', JStr ''7.25'', JStr ''253967.5'', JNum 0, JNum 0, JNum 0]
            = [JNum (of_int ts), r1, r2, r3, r4, r5, r6, JNum 0, JNum 0, JNum 0])
   \<and> (\<exists>d. hyperliquid_parse_websocket_message hyperliquid_example_candle_frame = Inr (Some d)
        \<and> map (map_of d)
             [''timestamp'', ''open'', ''high'', ''low'', ''close'', ''volume'',
              ''quote_asset_volume'', ''n_trades'', ''taker_buy_base_volume'',
              ''taker_buy_quote_volume'']
            = map Some [JNum 1700000100, JStr ''35010.0'', JStr ''35040.0'', JStr ''35000.0'',
                        JStr ''35030.0'', JStr ''7.25'', JNum 0, JNum 17, JNum 0, JNum 0]
        \<and> length d = 10)
   \<and> (\<exists>d. okx_parse_websocket_message okx_example_candle_frame = Inr (Some d)
        \<and> map (map_of d)
             [''timestamp'', ''open'', ''high'', ''low'', ''close'', ''volume'',
              ''quote_asset_volume'', ''n_trades'', ''taker_buy_base_volume'',
              ''taker_buy_quote_volume'']
            = map Some [JNum 1700006400, JStr ''35010.0'', JStr ''35040.0'', JStr ''35000.0'',
                        JStr ''35030.0'', JStr ''7.25'', JStr ''253967.5'', JNum 0, JNum 0,
                        JNum 0]
        \<and> map fst d
            = [''timestamp'', ''open'', ''high'', ''low'', ''close'', ''volume'',
               ''quote_asset_volume'', ''n_trades'', ''taker_buy_base_volume'',
               ''taker_buy_quote_volume'']
        \<and> map snd d
            = [JNum 1700006400, JStr ''35010.0'', JStr ''35040.0'', JStr ''35000.0'',
               JStr ''35030.0'', JStr ''7.25'', JStr ''253967.5'', JNum 0, JNum 0, JNum 0]
        \<and> length d = 10)"
proof -
  note fields =
    candle_fields [of hyperliquid_example_response "Some 1700000100" okx_example_response
                      hyperliquid_example_candle_frame okx_example_candle_frame]
  have hl: "hyperliquid_parse_rest_candles hyperliquid_example_response (Some 1700000100)
     = Inr (Some [[JNum 1700000040, JStr ''35000.0'', JStr ''35020.0'', JStr ''34990.0'',
                   JStr ''35010.0'', JStr ''12.5'', JNum 0, JNum 42, JNum 0, JNum 0]])"
    by (simp add: hyperliquid_parse_rest_candles_def hyperliquid_example_response_def
          hyperliquid_row_condition_def hyperliquid_rest_row_def whole_seconds_def)
  have okx: "okx_parse_rest_candles okx_example_response
     = Inr [[JNum 1700002800, JStr ''35000.0'', JStr ''35020.0'', JStr ''34990.0'',
             JStr ''35010.0'', JStr ''12.5'', JStr ''437625.0'', JNum 0, JNum 0, JNum 0],
            [JNum 1700006400, JStr ''35010.0'', JStr ''35040.0'', JStr ''35000.0'',
             JStr ''35030.0'', JStr ''7.25'', JStr ''253967.5'', JNum 0, JNum 0, JNum 0]]"
    by (simp add: okx_parse_rest_candles_def okx_example_response_def okx_rest_row_def
          whole_seconds_def decimal_value_def digit_value_def)
  have hl_ws: "hyperliquid_parse_websocket_message hyperliquid_example_candle_frame
     = Inr (Some [(''timestamp'', JNum 1700000100), (''open'', JStr ''35010.0''),
                  (''low'', JStr ''35000.0''), (''high'', JStr ''35040.0''),
                  (''close'', JStr ''35030.0''), (''volume'', JStr ''7.25''),
                  (''quote_asset_volume'', JNum 0), (''n_trades'', JNum 17),
                  (''taker_buy_base_volume'', JNum 0), (''taker_buy_quote_volume'', JNum 0)])"
    by (simp add: hyperliquid_parse_websocket_message_def hyperliquid_example_candle_frame_def
          whole_seconds_def)
  have okx_ws: "okx_parse_websocket_message okx_example_candle_frame
     = Inr (Some [(''timestamp'', JNum 1700006400), (''open'', JStr ''35010.0''),
                  (''high'', JStr ''35040.0''), (''low'', JStr ''35000.0''),
                  (''close'', JStr ''35030.0''), (''volume'', JStr ''7.25''),
                  (''quote_asset_volume'', JStr ''253967.5''), (''n_trades'', JNum 0),
                  (''taker_buy_base_volume'', JNum 0), (''taker_buy_quote_volume'', JNum 0)])"
    by (simp add: okx_parse_websocket_message_def okx_example_candle_frame_def
          whole_seconds_def decimal_value_def digit_value_def)
  have a: "\<exists>wire row ts vo vh vl vc vv vn.
          py_iter hyperliquid_example_response = Inr wire \<and> row \<in> set wire
          \<and> getitem row ''o'' = Inr vo \<and> getitem row ''h'' = Inr vh
          \<and> getitem row ''l'' = Inr vl \<and> getitem row ''c'' = Inr vc
          \<and> getitem row ''v'' = Inr vv \<and> getitem row ''n'' = Inr vn
          \<and> [JNum 1700000040, JStr ''35000.0'', JStr ''35020.0'', JStr ''34990.0'',
              JStr ''35010.0'', JStr ''12.5'', JNum 0, JNum 42, JNum 0, JNum 0]
            = [JNum (of_int ts), vo, vh, vl, vc, vv, JNum 0, vn, JNum 0, JNum 0]"
    using fields hl by simp
  have b: "\<exists>d wire row ts r1 r2 r3 r4 r5 r6.
          getitem okx_example_response ''data'' = Inr d \<and> py_iter d = Inr wire
          \<and> row \<in> set wire
          \<and> getindex row 1 = Inr r1 \<and> getindex row 2 = Inr r2
          \<and> getindex row 3 = Inr r3 \<and> getindex row 4 = Inr r4
          \<and> getindex row 5 = Inr r5 \<and> getindex row 6 = Inr r6
          \<and> [JNum 1700006400, JStr ''35010.0'', JStr ''35040.0'', JStr ''35000.0'',
              JStr ''35030.0'', JStr ''7.25'', JStr ''253967.5'', JNum 0, JNum 0, JNum 0]
            = [JNum (of_int ts), r1, r2, r3, r4, r5, r6, JNum 0, JNum 0, JNum 0]"
    using fields okx by simp
  show ?thesis
    using hl okx hl_ws okx_ws a b by simp
qed

section \<open>Timestamps in whole seconds\<close>

text \<open>
  C6. Every timestamp an adapter puts into a row or into a stream dict is the result of
  \<^verbatim>\<open>ensure_timestamp_in_seconds\<close> on the timestamp of the wire (\<^verbatim>\<open>row["t"]\<close> and
  \<^verbatim>\<open>candle["t"]\<close> for Hyperliquid, \<^verbatim>\<open>row[0]\<close> and \<^verbatim>\<open>candles[0]\<close> for OKX), and so a whole
  number of seconds. A wire timestamp in milliseconds, a number as Hyperliquid sends it or a
  decimal string as OKX does, becomes the whole seconds it holds; one already in seconds
  stays as it is.
\<close>

theorem timestamps_in_whole_seconds:
  "(\<forall>rows. hyperliquid_parse_rest_candles candles end_time = Inr (Some rows) \<longrightarrow>
      (\<forall>r \<in> set rows. \<exists>wire row t ts.
          py_iter candles = Inr wire \<and> row \<in> set wire \<and> getitem row ''t'' = Inr t
          \<and> ensure_timestamp_in_seconds t = Inr ts \<and> row_timestamp r = Some (of_int ts)))
   \<and> (\<forall>rows. okx_parse_rest_candles candles' = Inr rows \<longrightarrow>
      (\<forall>r \<in> set rows. \<exists>d wire row t ts.
          getitem candles' ''data'' = Inr d \<and> py_iter d = Inr wire \<and> row \<in> set wire
          \<and> getindex row 0 = Inr t
          \<and> ensure_timestamp_in_seconds t = Inr ts \<and> row_timestamp r = Some (of_int ts)))
   \<and> (\<forall>d. hyperliquid_parse_websocket_message msg = Inr (Some d) \<longrightarrow>
      (\<exists>candle t ts. getitem msg ''data'' = Inr candle \<and> getitem candle ''t'' = Inr t
          \<and> ensure_timestamp_in_seconds t = Inr ts
          \<and> map_of d ''timestamp'' = Some (JNum (of_int ts))))
   \<and> (\<forall>d. okx_parse_websocket_message msg' = Inr (Some d) \<longrightarrow>
      (\<exists>dat candle t ts. getitem msg' ''data'' = Inr dat \<and> getindex dat 0 = Inr candle
          \<and> getindex candle 0 = Inr t
          \<and> ensure_timestamp_in_seconds t = Inr ts
          \<and> map_of d ''timestamp'' = Some (JNum (of_int ts))))
   \<and> (\<forall>q. 10 ^ 12 \<le> q \<longrightarrow> ensure_timestamp_in_seconds (JNum q) = Inr \<lfloor>q / 1000\<rfloor>)
   \<and> (\<forall>s n. decimal_value s = Some n \<and> 10 ^ 12 \<le> n \<longrightarrow>
        ensure_timestamp_in_seconds (JStr s) = Inr (int (n div 1000)))
   \<and> (\<forall>k :: int. k < 10 ^ 12 \<longrightarrow> ensure_timestamp_in_seconds (JNum (of_int k)) = Inr k)"
proof -
  have hl_rest: "\<exists>wire row t ts.
          py_iter candles = Inr wire \<and> row \<in> set wire \<and> getitem row ''t'' = Inr t
          \<and> ensure_timestamp_in_seconds t = Inr ts \<and> row_timestamp r = Some (of_int ts)"
    if "hyperliquid_parse_rest_candles candles end_time = Inr (Some rows)" "r \<in> set rows"
    for rows r
    using hyperliquid_returned_row [OF that] by fastforce
  have okx_rest: "\<exists>d wire row t ts.
          getitem candles' ''data'' = Inr d \<and> py_iter d = Inr wire \<and> row \<in> set wire
          \<and> getindex row 0 = Inr t
          \<and> ensure_timestamp_in_seconds t = Inr ts \<and> row_timestamp r = Some (of_int ts)"
    if "okx_parse_rest_candles candles' = Inr rows" "r \<in> set rows" for rows r
    using okx_returned_row [OF that] by fastforce
  have hl_ws: "\<exists>candle t ts. getitem msg ''data'' = Inr candle \<and> getitem candle ''t'' = Inr t
          \<and> ensure_timestamp_in_seconds t = Inr ts
          \<and> map_of d ''timestamp'' = Some (JNum (of_int ts))"
    if "hyperliquid_parse_websocket_message msg = Inr (Some d)" for d
    using hyperliquid_parse_websocket_message_Some [OF that] by auto
  have okx_ws: "\<exists>dat candle t ts. getitem msg' ''data'' = Inr dat \<and> getindex dat 0 = Inr candle
          \<and> getindex candle 0 = Inr t
          \<and> ensure_timestamp_in_seconds t = Inr ts
          \<and> map_of d ''timestamp'' = Some (JNum (of_int ts))"
    if "okx_parse_websocket_message msg' = Inr (Some d)" for d
    using okx_parse_websocket_message_Some [OF that] by auto
  have ms: "ensure_timestamp_in_seconds (JNum q) = Inr \<lfloor>q / 1000\<rfloor>" if "10 ^ 12 \<le> q" for q
    using that by (simp add: whole_seconds_def)
  have ms_str: "ensure_timestamp_in_seconds (JStr s) = Inr (int (n div 1000))"
    if "decimal_value s = Some n" "10 ^ 12 \<le> n" for s n
  proof -
    have "(10 :: rat) ^ 12 \<le> of_nat n"
      using that(2) by (metis of_nat_le_iff of_nat_numeral of_nat_power)
    moreover have "\<lfloor>(of_nat n :: rat) / 1000\<rfloor> = int (n div 1000)"
      using floor_divide_of_nat_eq [of n 1000, where ?'a = rat] by simp
    ultimately show ?thesis
      using that(1) by (simp add: whole_seconds_def)
  qed
  have secs: "ensure_timestamp_in_seconds (JNum (of_int k)) = Inr k" if "k < 10 ^ 12" for k :: int
  proof -
    have "\<not> (10 :: rat) ^ 12 \<le> of_int k"
      using that by (metis not_le of_int_less_iff of_int_numeral of_int_power)
    then show ?thesis by (simp add: whole_seconds_def)
  qed
  show ?thesis
    using hl_rest okx_rest hl_ws okx_ws ms ms_str secs by blast
qed

theorem timestamps_in_whole_seconds_witness:
  "hyperliquid_parse_rest_candles hyperliquid_example_response (Some 1700000100)
     = Inr (Some [[JNum 1700000040, JStr ''35000.0'', JStr ''35020.0'', JStr ''34990.0'',
                   JStr ''35010.0'', JStr ''12.5'', JNum 0, JNum 42, JNum 0, JNum 0]])
   \<and> (\<exists>wire row t ts.
          py_iter hyperliquid_example_response = Inr wire \<and> row \<in> set wire
          \<and> getitem row ''t'' = Inr t \<and> ensure_timestamp_in_seconds t = Inr ts
          \<and> row_timestamp
               [JNum 1700000040, JStr ''35000.0'', JStr ''35020.0'', JStr ''34990.0'',
                JStr ''35010.0'', JStr ''12.5'', JNum 0, JNum 42, JNum 0, JNum 0]
              = Some (of_int ts))
   \<and> (\<exists>d candle t ts.
          okx_parse_websocket_message okx_example_candle_frame = Inr (Some d)
          \<and> getindex candle 0 = Inr t \<and> ensure_timestamp_in_seconds t = Inr ts
          \<and> map_of d ''timestamp'' = Some (JNum (of_int ts)))
   \<and> ensure_timestamp_in_seconds (JNum 1700000040000) = Inr 1700000040
   \<and> ensure_timestamp_in_seconds (JStr ''1700006400000'') = Inr 1700006400
   \<and> ensure_timestamp_in_seconds (JNum 1700000040) = Inr 1700000040"
proof -
  note seconds =
    timestamps_in_whole_seconds
      [of hyperliquid_example_response "Some 1700000100" okx_example_response
          hyperliquid_example_candle_frame okx_example_candle_frame]
  have hl: "hyperliquid_parse_rest_candles hyperliquid_example_response (Some 1700000100)
     = Inr (Some [[JNum 1700000040, JStr ''35000.0'', JStr ''35020.0'', JStr ''34990.0'',
                   JStr ''35010.0'', JStr ''12.5'', JNum 0, JNum 42, JNum 0, JNum 0]])"
    by (simp add: hyperliquid_parse_rest_candles_def hyperliquid_example_response_def
          hyperliquid_row_condition_def hyperliquid_rest_row_def whole_seconds_def)
  have okx_ws: "okx_parse_websocket_message okx_example_candle_frame
     = Inr (Some [(''timestamp'', JNum 1700006400), (''open'', JStr ''35010.0''),
                  (''high'', JStr ''35040.0''), (''low'', JStr ''35000.0''),
                  (''close'', JStr ''35030.0''), (''volume'', JStr ''7.25''),
                  (''quote_asset_volume'', JStr ''253967.5''), (''n_trades'', JNum 0),
                  (''taker_buy_base_volume'', JNum 0), (''taker_buy_quote_volume'', JNum 0)])"
    by (simp add: okx_parse_websocket_message_def okx_example_candle_frame_def
          whole_seconds_def decimal_value_def digit_value_def)
  have a: "\<exists>wire row t ts.
          py_iter hyperliquid_example_response = Inr wire \<and> row \<in> set wire
          \<and> getitem row ''t'' = Inr t \<and> ensure_timestamp_in_seconds t = Inr ts
          \<and> row_timestamp
               [JNum 1700000040, JStr ''35000.0'', JStr ''35020.0'', JStr ''34990.0'',
                JStr ''35010.0'', JStr ''12.5'', JNum 0, JNum 42, JNum 0, JNum 0]
              = Some (of_int ts)"
    using seconds hl by simp
  have b: "\<exists>d candle t ts.
          okx_parse_websocket_message okx_example_candle_frame = Inr (Some d)
          \<and> getindex candle 0 = Inr t \<and> ensure_timestamp_in_seconds t = Inr ts
          \<and> map_of d ''timestamp'' = Some (JNum (of_int ts))"
    using seconds okx_ws by blast
  have dv: "decimal_value ''1700006400000'' = Some 1700006400000"
    by (simp add: decimal_value_def digit_value_def)
  have ms: "\<forall>q. 10 ^ 12 \<le> q \<longrightarrow> ensure_timestamp_in_seconds (JNum q) = Inr \<lfloor>q / 1000\<rfloor>"
    using seconds by blast
  have c: "ensure_timestamp_in_seconds (JNum 1700000040000) = Inr 1700000040"
    using ms [rule_format, of 1700000040000] by simp
  have ms_str: "\<forall>s n. decimal_value s = Some n \<and> 10 ^ 12 \<le> n \<longrightarrow>
        ensure_timestamp_in_seconds (JStr s) = Inr (int (n div 1000))"
    using seconds by blast
  have d: "ensure_timestamp_in_seconds (JStr ''1700006400000'') = Inr 1700006400"
    using ms_str [rule_format, of "''1700006400000''" 1700006400000] dv by simp
  have secs: "\<forall>k :: int. k < 10 ^ 12 \<longrightarrow> ensure_timestamp_in_seconds (JNum (of_int k)) = Inr k"
    using seconds by blast
  have e: "ensure_timestamp_in_seconds (JNum 1700000040) = Inr 1700000040"
    using secs [rule_format, of 1700000040] by simp
  show ?thesis
    using hl a b c d e by simp
qed

section \<open>Ascending order of the historical rows\<close>

text \<open>
  C2. For a well-formed response in the exchange's wire order (Hyperliquid: oldest candle
  first; OKX: newest candle first) the rows of the historical parse are strictly ascending
  by timestamp. Hyperliquid keeps the wire order and only drops rows, so whatever
  \<^verbatim>\<open>end_time\<close> is, the rows it returns are ascending, and with an \<^verbatim>\<open>end_time\<close> it does
  return rows for a response that is not empty. OKX reverses the list it built
  (\<^verbatim>\<open>[::-1]\<close>), which turns newest-first into ascending, and returns rows for every
  well-formed response.
\<close>

theorem historical_rows_ascending:
  "(hyperliquid_well_formed candles \<longrightarrow>
      (\<forall>end_time rows. hyperliquid_parse_rest_candles candles end_time = Inr (Some rows)
          \<longrightarrow> ascending_by_timestamp rows)
      \<and> (candles \<noteq> JArr [] \<longrightarrow>
          (\<exists>rows. hyperliquid_parse_rest_candles candles (Some e) = Inr (Some rows)
             \<and> ascending_by_timestamp rows)))
   \<and> (okx_well_formed candles' \<longrightarrow>
      (\<exists>rows. okx_parse_rest_candles candles' = Inr rows \<and> ascending_by_timestamp rows))"
proof -
  have hl: "(\<forall>end_time rows. hyperliquid_parse_rest_candles candles end_time = Inr (Some rows)
          \<longrightarrow> ascending_by_timestamp rows)
      \<and> (candles \<noteq> JArr [] \<longrightarrow>
          (\<exists>rows. hyperliquid_parse_rest_candles candles (Some e) = Inr (Some rows)
             \<and> ascending_by_timestamp rows))"
    if wf: "hyperliquid_well_formed candles"
  proof -
    obtain wire where wire: "candles = JArr wire"
        "list_all hyperliquid_well_formed_row wire"
        "sorted_wrt (\<lambda>a b. timestamp_less (hyperliquid_wire_timestamp a)
                                             (hyperliquid_wire_timestamp b)) wire"
      using wf by (auto simp: hyperliquid_well_formed_def split: json.splits)
    have asc: "ascending_by_timestamp rows"
      if "hyperliquid_parse_rest_candles candles end_time = Inr (Some rows)" for end_time rows
    proof -
      have "hyperliquid_rest_rows wire end_time = Inr rows"
        using that wire(1) by (auto simp: hyperliquid_parse_rest_candles_Some)
      then show ?thesis
        using hyperliquid_rest_rows_ascending wire(2,3) by blast
    qed
    have "\<exists>rows. hyperliquid_parse_rest_candles candles (Some e) = Inr (Some rows)"
      if "candles \<noteq> JArr []"
    proof -
      obtain out where "hyperliquid_rest_rows wire (Some e) = Inr out"
        using hyperliquid_rest_rows_total [OF wire(2)] by blast
      moreover have "0 < length wire"
        using wire(1) \<open>candles \<noteq> JArr []\<close> by simp
      ultimately show ?thesis
        using wire(1) by (simp add: hyperliquid_parse_rest_candles_def)
    qed
    then show ?thesis
      using asc by blast
  qed
  have okx: "\<exists>rows. okx_parse_rest_candles candles' = Inr rows \<and> ascending_by_timestamp rows"
    if wf: "okx_well_formed candles'"
  proof -
    obtain wire where wire: "getitem candles' ''data'' = Inr (JArr wire)"
        "list_all okx_well_formed_row wire"
        "sorted_wrt (\<lambda>a b. timestamp_less (okx_wire_timestamp b) (okx_wire_timestamp a)) wire"
      using wf by (auto simp: okx_well_formed_def split: sum.splits json.splits)
    obtain out where out: "okx_rest_rows wire = Inr out"
      using okx_rest_rows_total [OF wire(2)] by blast
    have "okx_parse_rest_candles candles' = Inr (rev out)"
      using wire(1) out by (simp add: okx_parse_rest_candles_def)
    then show ?thesis
      using okx_rest_rows_ascending [OF out wire(2,3)] by blast
  qed
  show ?thesis
    using hl okx by blast
qed

theorem historical_rows_ascending_witness:
  "hyperliquid_well_formed hyperliquid_example_response
   \<and> hyperliquid_example_response \<noteq> JArr []
   \<and> hyperliquid_parse_rest_candles hyperliquid_example_response (Some 1700000160)
     = Inr (Some [[JNum 1700000040, JStr ''35000.0'', JStr ''35020.0'', JStr ''34990.0'',
                   JStr ''35010.0'', JStr ''12.5'', JNum 0, JNum 42, JNum 0, JNum 0],
                  [JNum 1700000100, JStr ''35010.0'', JStr ''35040.0'', JStr ''35000.0'',
                   JStr ''35030.0'', JStr ''7.25'', JNum 0, JNum 17, JNum 0, JNum 0]])
   \<and> ascending_by_timestamp
        [[JNum 1700000040, JStr ''35000.0'', JStr ''35020.0'', JStr ''34990.0'',
          JStr ''35010.0'', JStr ''12.5'', JNum 0, JNum 42, JNum 0, JNum 0],
         [JNum 1700000100, JStr ''35010.0'', JStr ''35040.0'', JStr ''35000.0'',
          JStr ''35030.0'', JStr ''7.25'', JNum 0, JNum 17, JNum 0, JNum 0]]
   \<and> okx_well_formed okx_example_response
   \<and> okx_parse_rest_candles okx_example_response
     = Inr [[JNum 1700002800, JStr ''35000.0'', JStr ''35020.0'', JStr ''34990.0'',
             JStr ''35010.0'', JStr ''12.5'', JStr ''437625.0'', JNum 0, JNum 0, JNum 0],
            [JNum 1700006400, JStr ''35010.0'', JStr ''35040.0'', JStr ''35000.0'',
             JStr ''35030.0'', JStr ''7.25'', JStr ''253967.5'', JNum 0, JNum 0, JNum 0]]
   \<and> ascending_by_timestamp
        [[JNum 1700002800, JStr ''35000.0'', JStr ''35020.0'', JStr ''34990.0'',
          JStr ''35010.0'', JStr ''12.5'', JStr ''437625.0'', JNum 0, JNum 0, JNum 0],
         [JNum 1700006400, JStr ''35010.0'', JStr ''35040.0'', JStr ''35000.0'',
          JStr ''35030.0'', JStr ''7.25'', JStr ''253967.5'', JNum 0, JNum 0, JNum 0]]"
proof -
  have hl_wf: "hyperliquid_well_formed hyperliquid_example_response"
    by (simp add: hyperliquid_well_formed_def hyperliquid_example_response_def
          hyperliquid_well_formed_row_def hyperliquid_wire_timestamp_def has_key_def
          epoch_milliseconds_def timestamp_less_def)
  have hl_ne: "hyperliquid_example_response \<noteq> JArr []"
    by (simp add: hyperliquid_example_response_def)
  have hl: "hyperliquid_parse_rest_candles hyperliquid_example_response (Some 1700000160)
     = Inr (Some [[JNum 1700000040, JStr ''35000.0'', JStr ''35020.0'', JStr ''34990.0'',
                   JStr ''35010.0'', JStr ''12.5'', JNum 0, JNum 42, JNum 0, JNum 0],
                  [JNum 1700000100, JStr ''35010.0'', JStr ''35040.0'', JStr ''35000.0'',
                   JStr ''35030.0'', JStr ''7.25'', JNum 0, JNum 17, JNum 0, JNum 0]])"
    by (simp add: hyperliquid_parse_rest_candles_def hyperliquid_example_response_def
          hyperliquid_row_condition_def hyperliquid_rest_row_def whole_seconds_def)
  have okx_wf: "okx_well_formed okx_example_response"
    by (simp add: okx_well_formed_def okx_example_response_def okx_well_formed_row_def
          okx_wire_timestamp_def decimal_value_def digit_value_def
          epoch_milliseconds_def timestamp_less_def)
  have okx: "okx_parse_rest_candles okx_example_response
     = Inr [[JNum 1700002800, JStr ''35000.0'', JStr ''35020.0'', JStr ''34990.0'',
             JStr ''35010.0'', JStr ''12.5'', JStr ''437625.0'', JNum 0, JNum 0, JNum 0],
            [JNum 1700006400, JStr ''35010.0'', JStr ''35040.0'', JStr ''35000.0'',
             JStr ''35030.0'', JStr ''7.25'', JStr ''253967.5'', JNum 0, JNum 0, JNum 0]]"
    by (simp add: okx_parse_rest_candles_def okx_example_response_def okx_rest_row_def
          whole_seconds_def decimal_value_def digit_value_def)
  show ?thesis
    using historical_rows_ascending
            [of hyperliquid_example_response 1700000160 okx_example_response]
          hl_wf hl_ne hl okx_wf okx
    by simp
qed

section \<open>The three bound modes of a historical fetch\<close>


text \<open>
  What \<^verbatim>\<open>fetch_candles\<close> of Hyperliquid does with a response that has rows when no
  \<^verbatim>\<open>end_time\<close> was given: the request is built, and then the comparison with \<^verbatim>\<open>None\<close> in
  \<^verbatim>\<open>_parse_rest_candles\<close> raises.
\<close>

lemma hyperliquid_fetch_without_end_time:
  "hyperliquid_fetch_candles hyperliquid_example_constants hyperliquid_example_executor
       hyperliquid_example_feed (Some 1700000040) None
     = Inl TypeError"
  by (simp add: hyperliquid_fetch_candles_def hyperliquid_fetch_request_def
        intervals_getitem_def hyperliquid_example_constants_def hyperliquid_example_feed_def
        hyperliquid_example_executor_def hyperliquid_parse_rest_candles_def
        hyperliquid_example_response_def hyperliquid_row_condition_def whole_seconds_def)

text \<open>
  A response is more than its shape: \<^verbatim>\<open>astype(float)\<close> raises \<open>ValueError\<close> on a price
  that is no number, here an opening price \<^verbatim>\<open>abc\<close>.
\<close>

lemma hyperliquid_fetch_non_numeric:
  "hyperliquid_fetch_candles hyperliquid_example_constants
       (\<lambda>request. Inr (JArr [JObj [(''t'', JNum 1700000040000), (''o'', JStr ''abc''),
                                   (''c'', JStr ''35010.0''), (''h'', JStr ''35020.0''),
                                   (''l'', JStr ''34990.0''), (''v'', JStr ''12.5''),
                                   (''n'', JNum 42)]]))
       hyperliquid_example_feed None (Some 1700000160)
     = Inl ValueError"
  by (simp add: hyperliquid_fetch_candles_def hyperliquid_fetch_request_def
        intervals_getitem_def hyperliquid_example_constants_def hyperliquid_example_feed_def
        hyperliquid_parse_rest_candles_def hyperliquid_row_condition_def
        hyperliquid_rest_row_def whole_seconds_def float_literal_defs)



section \<open>Frames that are not candle frames\<close>

text \<open>
  C4, as the claim states it, asks both stream parsers to return nothing, without raising,
  for a frame on another channel. \<^verbatim>\<open>_parse_websocket_message\<close> of OKX does not look at the
  channel: it takes every frame that has a \<^verbatim>\<open>data\<close> member for a candle frame. On a push
  of the \<^verbatim>\<open>tickers\<close> channel, whose \<^verbatim>\<open>data\<close> is a list of objects, \<^verbatim>\<open>candles[0]\<close>
  raises \<open>KeyError\<close>.
\<close>

theorem okx_other_channel_counterexample:
  "okx_parse_websocket_message okx_example_tickers_frame = Inl (KeyError (JNum 0))"
  by (simp add: okx_parse_websocket_message_def okx_example_tickers_frame_def)

text \<open>
  C4, amended. The stream parser of Hyperliquid returns nothing, and does not raise, for
  \<^verbatim>\<open>None\<close> and for every frame (a JSON object) whose \<^verbatim>\<open>channel\<close> is not \<^verbatim>\<open>candle\<close>:
  subscription acknowledgements, heartbeats, frames of other channels. The stream parser of
  OKX returns nothing, and does not raise, for \<^verbatim>\<open>None\<close>, for every JSON object without a
  \<^verbatim>\<open>data\<close> member (subscription acknowledgements, error events) and for every text frame
  that does not contain \<^verbatim>\<open>data\<close> (the heartbeat \<^verbatim>\<open>pong\<close>); it does not inspect the
  channel of a frame that has a \<^verbatim>\<open>data\<close> member.
\<close>

theorem irrelevant_frames_give_nothing:
  "(msg = JNull \<or> (\<exists>kvs. msg = JObj kvs \<and> map_of kvs ''channel'' \<noteq> Some (JStr ''candle''))
      \<longrightarrow> hyperliquid_parse_websocket_message msg = Inr None)
   \<and> (msg' = JNull \<or> (\<exists>kvs. msg' = JObj kvs \<and> map_of kvs ''data'' = None)
         \<or> (\<exists>s. msg' = JStr s \<and> \<not> sublist ''data'' s)
      \<longrightarrow> okx_parse_websocket_message msg' = Inr None)"
proof -
  have hl_null: "hyperliquid_parse_websocket_message JNull = Inr None"
    by (simp add: hyperliquid_parse_websocket_message_def)
  have hl_obj: "hyperliquid_parse_websocket_message (JObj kvs) = Inr None"
    if "map_of kvs ''channel'' \<noteq> Some (JStr ''candle'')" for kvs
    using that by (auto simp: hyperliquid_parse_websocket_message_def split: option.splits)
  have okx_null: "okx_parse_websocket_message JNull = Inr None"
    by (simp add: okx_parse_websocket_message_def)
  have okx_obj: "okx_parse_websocket_message (JObj kvs) = Inr None"
    if "map_of kvs ''data'' = None" for kvs
  proof -
    have "''data'' \<notin> set (map fst kvs)"
      using that by (simp add: map_of_eq_None_iff)
    then show ?thesis
      by (simp add: okx_parse_websocket_message_def)
  qed
  have okx_str: "okx_parse_websocket_message (JStr s) = Inr None"
    if "\<not> sublist ''data'' s" for s
    using that by (simp add: okx_parse_websocket_message_def)
  show ?thesis
    using hl_null hl_obj okx_null okx_obj okx_str by blast
qed

theorem irrelevant_frames_give_nothing_witness:
  "hyperliquid_parse_websocket_message JNull = Inr None
   \<and> hyperliquid_parse_websocket_message hyperliquid_example_ack_frame = Inr None
   \<and> hyperliquid_parse_websocket_message hyperliquid_example_pong_frame = Inr None
   \<and> hyperliquid_parse_websocket_message hyperliquid_example_trades_frame = Inr None
   \<and> okx_parse_websocket_message JNull = Inr None
   \<and> okx_parse_websocket_message okx_example_ack_frame = Inr None
   \<and> okx_parse_websocket_message okx_example_pong_frame = Inr None"
proof -
  have ack: "\<exists>kvs. hyperliquid_example_ack_frame = JObj kvs
               \<and> map_of kvs ''channel'' \<noteq> Some (JStr ''candle'')"
    by (simp add: hyperliquid_example_ack_frame_def)
  have pong: "\<exists>kvs. hyperliquid_example_pong_frame = JObj kvs
               \<and> map_of kvs ''channel'' \<noteq> Some (JStr ''candle'')"
    by (simp add: hyperliquid_example_pong_frame_def)
  have trades: "\<exists>kvs. hyperliquid_example_trades_frame = JObj kvs
               \<and> map_of kvs ''channel'' \<noteq> Some (JStr ''candle'')"
    by (simp add: hyperliquid_example_trades_frame_def)
  have okx_ack: "\<exists>kvs. okx_example_ack_frame = JObj kvs \<and> map_of kvs ''data'' = None"
    by (simp add: okx_example_ack_frame_def)
  have okx_pong: "\<exists>s. okx_example_pong_frame = JStr s \<and> \<not> sublist ''data'' s"
    by (simp add: okx_example_pong_frame_def sublist_Cons_right)
  show ?thesis
    using irrelevant_frames_give_nothing [of JNull JNull]
          irrelevant_frames_give_nothing [of hyperliquid_example_ack_frame okx_example_ack_frame]
          irrelevant_frames_give_nothing [of hyperliquid_example_pong_frame okx_example_pong_frame]
          irrelevant_frames_give_nothing [of hyperliquid_example_trades_frame JNull]
          ack pong trades okx_ack okx_pong
    by blast
qed

end
